theory Spec2Isabelle
  imports Complex_Main "HOL-Library.Log_Nat"
begin

section \<open>Order and payment lifecycle of the storefront backend\<close>

text \<open>
  The theory embeds the handlers of the order routes (\<^verbatim>\<open>/api/orders\<close>) and of the
  payment routes (\<^verbatim>\<open>/api/payments\<close>) of the backend, the validators and hooks of the
  Order, Payment and Product schemas and the instance methods of the Payment model. A
  handler becomes a function from the stored collections to a response and the
  collections it leaves behind; one request runs at a time.

  Conventions of the embedding:
  \<^item> a JavaScript \<^verbatim>\<open>Number\<close> that carries money is an IEEE double (\<open>js_number\<close>):
    every sum, product and quotient is rounded to the nearest double, ties to even, and
    comparisons are those of doubles. The sign of zero is not modelled;
  \<^item> a stock count and an ordered quantity are natural numbers, in the range where a
    double holds an integer exactly. The Product schema declares \<^verbatim>\<open>inventory.quantity\<close>
    with \<^verbatim>\<open>min: 0\<close>, so a \<^verbatim>\<open>save()\<close> that would store a negative count is rejected by
    the validator: the model writes that rejection out wherever the source subtracts;
  \<^item> an ObjectId of a product or a user is a natural number; an order or a payment is
    identified by its position in its collection (documents are appended, never
    deleted);
  \<^item> the requester \<open>uid\<close> is the user that the \<^verbatim>\<open>authenticate\<close> middleware attached
    to the request, and \<^verbatim>\<open>new Date()\<close> is a parameter \<open>now\<close> of the handler;
  \<^item> a request field that holds text is a string of ASCII characters, or absent; the
    validators of the route (express-validator) and of the schemas on such fields are
    part of the handlers. The two functions of the validator library that the source
    does not contain, \<^verbatim>\<open>isEmail\<close> and \<^verbatim>\<open>normalizeEmail\<close>, are arguments;
  \<^item> what comes from outside is an argument too: the reply of a gateway's verification
    endpoint, the header and body of a webhook delivery, the secrets of the
    environment, and the platform functions \<^verbatim>\<open>JSON.parse\<close>, \<^verbatim>\<open>JSON.stringify\<close> and the
    HMAC;
  \<^item> the generated \<^verbatim>\<open>orderId\<close> string and the notification e-mail, whose failure the
    handler swallows, are left out.
\<close>

subsection \<open>Numbers\<close>

text \<open>
  A double is a rational that the format represents, an infinity, or NaN.
  \<open>round_double\<close> takes a rational to the nearest double: with \<open>e\<close> the binary exponent
  of its magnitude (not below the one of the subnormal numbers) the spacing of the
  doubles around it is \<open>2 ^ (e - 52)\<close>; the magnitude is rounded to a multiple of the
  spacing, a tie going to the even multiple; beyond the largest double the result is an
  infinity.
\<close>

datatype js_number = Num rat | PosInf | NegInf | NaN

definition pow2 :: "int \<Rightarrow> rat" where
  "pow2 k = (if 0 \<le> k then 2 ^ nat k else 1 / 2 ^ nat (- k))"

text \<open>The integer part of the binary logarithm of a positive rational.\<close>

definition exponent :: "rat \<Rightarrow> int" where
  "exponent a =
     (let k = bitlen (fst (quotient_of a)) - bitlen (snd (quotient_of a))
      in if pow2 k \<le> a then k else k - 1)"

definition nearest_even :: "rat \<Rightarrow> int" where
  "nearest_even m =
     (let f = \<lfloor>m\<rfloor>; d = m - of_int f
      in if d < 1 / 2 then f else if 1 / 2 < d then f + 1 else if even f then f else f + 1)"

definition round_double :: "rat \<Rightarrow> js_number" where
  "round_double x =
     (if x = 0 then Num 0
      else
        let a = \<bar>x\<bar>;
            e = max (exponent a) (- 1022);
            u = pow2 (e - 52);
            n = nearest_even (a / u)
        in if 1023 < e \<or> (e = 1023 \<and> n = 2 ^ 53) then (if 0 < x then PosInf else NegInf)
           else Num (sgn x * of_int n * u))"

fun js_negative :: "js_number \<Rightarrow> bool" where
  "js_negative (Num a) = (a < 0)"
| "js_negative NegInf = True"
| "js_negative PosInf = False"
| "js_negative NaN = False"

text \<open>\<^verbatim>\<open>x + y\<close>, \<^verbatim>\<open>x * y\<close> and \<^verbatim>\<open>x / 100\<close> on doubles.\<close>

fun js_add :: "js_number \<Rightarrow> js_number \<Rightarrow> js_number" where
  "js_add (Num a) (Num b) = round_double (a + b)"
| "js_add NaN y = NaN"
| "js_add x NaN = NaN"
| "js_add PosInf NegInf = NaN"
| "js_add NegInf PosInf = NaN"
| "js_add PosInf y = PosInf"
| "js_add NegInf y = NegInf"
| "js_add x PosInf = PosInf"
| "js_add x NegInf = NegInf"

fun js_mul :: "js_number \<Rightarrow> js_number \<Rightarrow> js_number" where
  "js_mul (Num a) (Num b) = round_double (a * b)"
| "js_mul NaN y = NaN"
| "js_mul x NaN = NaN"
| "js_mul x y =
     (if x = Num 0 \<or> y = Num 0 then NaN
      else if js_negative x = js_negative y then PosInf else NegInf)"

fun js_div_100 :: "js_number \<Rightarrow> js_number" where
  "js_div_100 (Num a) = round_double (a / 100)"
| "js_div_100 x = x"

text \<open>\<^verbatim>\<open>x <= y\<close> and \<^verbatim>\<open>x < y\<close>; \<^verbatim>\<open>x >= y\<close> is \<open>js_le y x\<close> and \<^verbatim>\<open>x > y\<close> is \<open>js_less y x\<close>.\<close>

fun js_le :: "js_number \<Rightarrow> js_number \<Rightarrow> bool" where
  "js_le (Num a) (Num b) = (a \<le> b)"
| "js_le NaN y = False"
| "js_le x NaN = False"
| "js_le NegInf y = True"
| "js_le x PosInf = True"
| "js_le x y = False"

fun js_less :: "js_number \<Rightarrow> js_number \<Rightarrow> bool" where
  "js_less (Num a) (Num b) = (a < b)"
| "js_less NaN y = False"
| "js_less x NaN = False"
| "js_less PosInf y = False"
| "js_less x NegInf = False"
| "js_less x y = True"

text \<open>The literal \<^verbatim>\<open>0.075\<close>: the double nearest to it.\<close>

definition vat_rate :: js_number where
  "vat_rate = Num (5404319552844595 / 72057594037927936)"

text \<open>
  What a \<^verbatim>\<open>min: 0\<close> validator of a schema accepts: a number that is not NaN (the cast
  refuses NaN) and is not below 0.
\<close>

definition min_0 :: "js_number \<Rightarrow> bool" where
  "min_0 x = js_le (Num 0) x"

subsection \<open>Strings\<close>

text \<open>
  The sanitizer \<^verbatim>\<open>trim()\<close> removes the white space at both ends, and \<^verbatim>\<open>isLength\<close>
  bounds the length.
\<close>

definition is_space :: "char \<Rightarrow> bool" where
  "is_space c = (c \<in> set [CHR '' '', CHR 0x09, CHR 0x0A, CHR 0x0B, CHR 0x0C, CHR 0x0D])"

definition trim :: "string \<Rightarrow> string" where
  "trim s = rev (dropWhile is_space (rev (dropWhile is_space s)))"

definition isLength :: "nat \<Rightarrow> nat \<Rightarrow> string \<Rightarrow> bool" where
  "isLength lo hi s = (lo \<le> length s \<and> length s \<le> hi)"

text \<open>
  The pattern of the Order schema for an e-mail address,
  \<^verbatim>\<open>/^\w+([.-]?\w+)*@\w+([.-]?\w+)*(\.\w{2,3})+$/\<close>. The part \<^verbatim>\<open>\w+([.-]?\w+)*\<close> is a
  string of word characters, dots and hyphens that starts and ends with a word
  character and has no two separators in a row: \<open>separated\<close>, whose flag says whether
  the character before was a word character. The part after the \<^verbatim>\<open>@\<close> must end with a
  dot and two or three word characters, after a string of the same shape.
\<close>

definition is_word :: "char \<Rightarrow> bool" where
  "is_word c =
     (let n = (of_char c :: nat)
      in (48 \<le> n \<and> n \<le> 57) \<or> (65 \<le> n \<and> n \<le> 90) \<or> n = 95 \<or> (97 \<le> n \<and> n \<le> 122))"

fun separated :: "bool \<Rightarrow> string \<Rightarrow> bool" where
  "separated w [] = w"
| "separated w (c # cs) =
     (if is_word c then separated True cs
      else if (c = CHR ''.'' \<or> c = CHR ''-'') \<and> w then separated False cs
      else False)"

definition domain_pattern :: "string \<Rightarrow> bool" where
  "domain_pattern d =
     (let t = rev (takeWhile (\<lambda>c. c \<noteq> CHR ''.'') (rev d))
      in length t < length d \<and> (length t = 2 \<or> length t = 3) \<and> list_all is_word t
         \<and> separated False (take (length d - length t - 1) d))"

definition email_pattern :: "string \<Rightarrow> bool" where
  "email_pattern s =
     (let l = takeWhile (\<lambda>c. c \<noteq> CHR ''@'') s
      in length l < length s \<and> separated False l \<and> domain_pattern (drop (Suc (length l)) s))"

subsection \<open>Documents\<close>

datatype product_status = Active | Inactive | Draft | Archived

record product =
  title :: string
  price :: js_number
  prod_status :: product_status
  trackInventory :: bool
  quantity :: nat

datatype payment_method = Card | BankTransfer | Flutterwave | Paystack

datatype order_status = Pending | Processing | Shipped | Delivered | Cancelled

record order_item =
  product :: nat
  item_title :: string
  item_price :: js_number
  item_quantity :: nat
  itemTotal :: js_number

record pricing =
  subtotal :: js_number
  tax :: js_number
  shipping :: js_number
  total :: js_number

text \<open>
  An address, as the request carries it and as the Order schema stores it, for shipping
  and for billing alike: every field is a string or absent. The field \<open>street\<close> is the
  source's \<^verbatim>\<open>address\<close>.
\<close>

record address =
  firstName :: "string option"
  lastName :: "string option"
  email :: "string option"
  phone :: "string option"
  street :: "string option"
  city :: "string option"
  state :: "string option"
  postalCode :: "string option"

record order =
  user :: nat
  items :: "order_item list"
  pricing :: pricing
  shippingAddress :: address
  billingAddress :: address
  paymentMethod :: payment_method
  status :: order_status
  trackingNumber :: "string option"
  order_notes :: "string option"
  cancellationReason :: "string option"
  cancelledAt :: "nat option"
  shippedAt :: "nat option"
  deliveredAt :: "nat option"

datatype payment_status =
  PayPending | PayProcessing | PayCompleted | PayFailed | PayCancelled
  | PayRefunded | PayPartiallyRefunded

text \<open>
  The template strings \<^verbatim>\<open>`shopease-${orderId}-${Date.now()}`\<close> and
  \<^verbatim>\<open>`TXN-${orderId}-${Date.now()}`\<close>: prefix, order and time.
\<close>

datatype gateway_ref = GatewayRef string nat nat

datatype meta_value = MetaNumber js_number | MetaString string | MetaData string

record refund =
  refund_amount :: js_number
  reason :: string
  processedBy :: "nat option"
  refundedAt :: nat

record fees =
  fee_gateway :: js_number
  fee_processing :: js_number
  fee_total :: js_number

record payment_error =
  code :: "string option"
  message :: "string option"

record payment =
  pay_order :: nat
  pay_user :: nat
  amount :: js_number
  currency :: string
  pay_method :: payment_method
  gateway :: string
  gatewayReference :: "gateway_ref option"
  gatewayTransactionId :: "nat option"
  pay_status :: payment_status
  metadata :: "(string \<times> meta_value) list"
  refunds :: "refund list"
  fees :: fees
  error :: "payment_error option"
  completedAt :: "nat option"
  failedAt :: "nat option"

record cart =
  cart_items :: "(nat \<times> nat) list"
  lastUpdated :: "nat option"

record store =
  products :: "nat \<rightharpoonup> product"
  orders :: "order list"
  payments :: "payment list"
  carts :: "nat \<Rightarrow> cart"

text \<open>
  The responses of the handlers that are not a success, by HTTP status and message:
  \<^item> \<open>ValidationFailed\<close>: 400 \<^verbatim>\<open>Validation failed\<close> (express-validator);
  \<^item> \<open>ProductNotFound\<close>: 400 \<^verbatim>\<open>Product <id> not found\<close>;
  \<^item> \<open>ProductUnavailable\<close>: 400 \<^verbatim>\<open>Product <title> is not available\<close>;
  \<^item> \<open>InsufficientStock\<close>: 400 \<^verbatim>\<open>Insufficient inventory for <title>. Available: <n>\<close>;
  \<^item> \<open>NotFound\<close>: 404; \<open>Forbidden\<close>: 403 \<^verbatim>\<open>Access denied\<close>;
  \<^item> \<open>InvalidTransition\<close>: 400 \<^verbatim>\<open>Order cannot be cancelled at this stage\<close>;
  \<^item> \<open>NotEligible\<close>: 400 \<^verbatim>\<open>Order is not eligible for payment\<close>;
  \<^item> \<open>DuplicatePayment\<close>: 400 \<^verbatim>\<open>Payment already initiated for this order\<close>;
  \<^item> \<open>VerificationFailed\<close>: 400 with the message of the verification result;
  \<^item> \<open>InvalidSignature\<close>: 401 \<^verbatim>\<open>Invalid signature\<close>;
  \<^item> \<open>ServerError\<close>: 500, the handler's \<^verbatim>\<open>catch\<close> block;
  \<^item> \<open>RefundNotPositive\<close> and \<open>RefundExceedsAmount\<close>: the two errors \<^verbatim>\<open>addRefund\<close> throws;
  \<^item> \<open>SaveRejected\<close>: the validation error with which \<^verbatim>\<open>save()\<close> rejects inside a model
    method.
\<close>

datatype failure =
  ValidationFailed
  | ProductNotFound nat
  | ProductUnavailable string
  | InsufficientStock string nat
  | NotFound
  | Forbidden
  | InvalidTransition
  | NotEligible
  | DuplicatePayment
  | VerificationFailed string
  | InvalidSignature
  | ServerError
  | RefundNotPositive
  | RefundExceedsAmount
  | SaveRejected

subsection \<open>Creating an order: \<^verbatim>\<open>POST /api/orders\<close>\<close>

record request_item =
  productId :: nat
  req_quantity :: nat

record order_request =
  req_items :: "request_item list"
  req_shippingAddress :: address
  req_billingAddress :: "address option"
  req_paymentMethod :: payment_method

text \<open>The two functions of the validator library that the route uses on the e-mail.\<close>

record validator =
  isEmail :: "string \<Rightarrow> bool"
  normalizeEmail :: "string \<Rightarrow> string"

text \<open>
  A validation chain on a field that must be there, \<^verbatim>\<open>body(f).trim().isLength(lo, hi)\<close>
  or \<^verbatim>\<open>body(f).isLength(lo, hi)\<close>: an absent field is validated as the empty string. With
  \<^verbatim>\<open>optional()\<close> an absent field passes.
\<close>

definition required_field :: "(string \<Rightarrow> bool) \<Rightarrow> string option \<Rightarrow> bool" where
  "required_field ok f = (case f of None \<Rightarrow> ok [] | Some x \<Rightarrow> ok x)"

definition optional_field :: "(string \<Rightarrow> bool) \<Rightarrow> string option \<Rightarrow> bool" where
  "optional_field ok f = (case f of None \<Rightarrow> True | Some x \<Rightarrow> ok x)"

text \<open>The chains of the route on the shipping address, and what the sanitizers leave.\<close>

definition shipping_valid :: "validator \<Rightarrow> address \<Rightarrow> bool" where
  "shipping_valid v a =
     (required_field (\<lambda>x. isLength 1 50 (trim x)) (firstName a)
      \<and> required_field (\<lambda>x. isLength 1 50 (trim x)) (lastName a)
      \<and> (case email a of None \<Rightarrow> False | Some x \<Rightarrow> isEmail v x)
      \<and> required_field (isLength 10 15) (phone a)
      \<and> required_field (\<lambda>x. isLength 5 200 (trim x)) (street a)
      \<and> required_field (\<lambda>x. isLength 1 50 (trim x)) (city a)
      \<and> required_field (\<lambda>x. isLength 1 50 (trim x)) (state a)
      \<and> optional_field (isLength 1 10) (postalCode a))"

definition sanitize_shipping :: "validator \<Rightarrow> address \<Rightarrow> address" where
  "sanitize_shipping v a =
     a\<lparr>firstName := map_option trim (firstName a),
       lastName := map_option trim (lastName a),
       email := map_option (normalizeEmail v) (email a),
       street := map_option trim (street a),
       city := map_option trim (city a),
       state := map_option trim (state a)\<rparr>"

text \<open>
  The validators of the Order schema on an address: \<^verbatim>\<open>maxlength\<close> on every field and
  \<^verbatim>\<open>match\<close> on the e-mail, which lets an absent or empty value pass; for the shipping
  address the fields but the postal code are \<^verbatim>\<open>required\<close> as well.
\<close>

definition maxlength :: "nat \<Rightarrow> string option \<Rightarrow> bool" where
  "maxlength n f = (case f of None \<Rightarrow> True | Some x \<Rightarrow> length x \<le> n)"

definition present :: "string option \<Rightarrow> bool" where
  "present f = (case f of None \<Rightarrow> False | Some x \<Rightarrow> x \<noteq> [])"

definition address_schema_ok :: "address \<Rightarrow> bool" where
  "address_schema_ok a =
     (maxlength 50 (firstName a) \<and> maxlength 50 (lastName a)
      \<and> (case email a of None \<Rightarrow> True | Some x \<Rightarrow> x = [] \<or> email_pattern x)
      \<and> maxlength 15 (phone a) \<and> maxlength 200 (street a) \<and> maxlength 50 (city a)
      \<and> maxlength 50 (state a) \<and> maxlength 10 (postalCode a))"

definition shipping_required :: "address \<Rightarrow> bool" where
  "shipping_required a =
     (present (firstName a) \<and> present (lastName a) \<and> present (email a) \<and> present (phone a)
      \<and> present (street a) \<and> present (city a) \<and> present (state a))"

text \<open>
  The first loop of the handler (``validate products and calculate totals''): the
  running subtotal and the line items collected so far are the accumulators; the first
  item that fails a check ends the request.
\<close>

fun validate_and_total ::
  "(nat \<rightharpoonup> product) \<Rightarrow> request_item list \<Rightarrow> js_number \<Rightarrow> order_item list
    \<Rightarrow> failure + (js_number \<times> order_item list)" where
  "validate_and_total ps [] sub acc = Inr (sub, acc)"
| "validate_and_total ps (it # its) sub acc =
     (case ps (productId it) of
        None \<Rightarrow> Inl (ProductNotFound (productId it))
      | Some p \<Rightarrow>
          if prod_status p \<noteq> Active then Inl (ProductUnavailable (title p))
          else if trackInventory p \<and> quantity p < req_quantity it
            then Inl (InsufficientStock (title p) (quantity p))
          else
            validate_and_total ps its
              (js_add sub (js_mul (price p) (Num (of_nat (req_quantity it)))))
              (acc @ [\<lparr>product = productId it, item_title = title p, item_price = price p,
                       item_quantity = req_quantity it,
                       itemTotal = js_mul (price p) (Num (of_nat (req_quantity it)))\<rparr>]))"

text \<open>
  The second loop (``update product inventory''): every product is read again and
  saved with its count reduced. The result is the catalogue reached and whether the loop
  ran to its end: a missing product (a property read on \<^verbatim>\<open>null\<close>) or a save that the
  \<^verbatim>\<open>min: 0\<close> validator rejects throws, and the saves made before it stay.
\<close>

fun update_inventory ::
  "(nat \<rightharpoonup> product) \<Rightarrow> request_item list \<Rightarrow> (nat \<rightharpoonup> product) \<times> bool" where
  "update_inventory ps [] = (ps, True)"
| "update_inventory ps (it # its) =
     (case ps (productId it) of
        None \<Rightarrow> (ps, False)
      | Some p \<Rightarrow>
          if trackInventory p then
            (if quantity p < req_quantity it then (ps, False)
             else update_inventory
               (ps(productId it \<mapsto> p\<lparr>quantity := quantity p - req_quantity it\<rparr>)) its)
          else update_inventory ps its)"

text \<open>
  The validators of the Order schema, run by the first \<^verbatim>\<open>save()\<close> on every path of the
  new document.
\<close>

definition order_schema_ok :: "order \<Rightarrow> bool" where
  "order_schema_ok ord =
     (list_all (\<lambda>i. min_0 (item_price i) \<and> 1 \<le> item_quantity i \<and> min_0 (itemTotal i))
        (items ord)
      \<and> min_0 (subtotal (pricing ord)) \<and> min_0 (tax (pricing ord))
      \<and> min_0 (shipping (pricing ord)) \<and> min_0 (total (pricing ord))
      \<and> shipping_required (shippingAddress ord) \<and> address_schema_ok (shippingAddress ord)
      \<and> address_schema_ok (billingAddress ord))"

text \<open>
  ``Calculate pricing'': \<^verbatim>\<open>subtotal * 0.075\<close>, \<^verbatim>\<open>subtotal > 50000 ? 0 : 2500\<close> and
  \<^verbatim>\<open>subtotal + tax + shipping\<close>, on doubles.
\<close>

definition calculate_pricing :: "js_number \<Rightarrow> pricing" where
  "calculate_pricing sub =
     (let tax = js_mul sub vat_rate;
          shipping = (if js_less (Num 50000) sub then Num 0 else Num 2500)
      in \<lparr>subtotal = sub, tax = tax, shipping = shipping,
          total = js_add (js_add sub tax) shipping\<rparr>)"

text \<open>
  The handler. The validation chains of the route come first and sanitize the shipping
  address; an item that the first loop refuses is answered before anything is saved;
  then the order is saved, the stock is reduced line by line, and the cart of the
  requester is emptied. An order that the schema rejects is answered 500 with nothing
  saved; an exception after the order was saved leaves the order and the saves made so
  far in place.
\<close>

definition createOrder ::
  "validator \<Rightarrow> nat \<Rightarrow> nat \<Rightarrow> order_request \<Rightarrow> store \<Rightarrow> (failure + order) \<times> store" where
  "createOrder v now uid req s =
     (if req_items req = [] \<or> list_ex (\<lambda>it. req_quantity it < 1) (req_items req)
         \<or> \<not> shipping_valid v (req_shippingAddress req)
        then (Inl ValidationFailed, s)
      else
        case validate_and_total (products s) (req_items req) (Num 0) [] of
          Inl e \<Rightarrow> (Inl e, s)
        | Inr (sub, orderItems) \<Rightarrow>
            let ship = sanitize_shipping v (req_shippingAddress req);
                ord = \<lparr>user = uid, items = orderItems, pricing = calculate_pricing sub,
                       shippingAddress = ship,
                       billingAddress =
                         (case req_billingAddress req of None \<Rightarrow> ship | Some b \<Rightarrow> b),
                       paymentMethod = req_paymentMethod req, status = Pending,
                       trackingNumber = None, order_notes = None, cancellationReason = None,
                       cancelledAt = None, shippedAt = None, deliveredAt = None\<rparr>
            in if \<not> order_schema_ok ord then (Inl ServerError, s)
               else
                 let s1 = s\<lparr>orders := orders s @ [ord]\<rparr>
                 in case update_inventory (products s1) (req_items req) of
                      (ps, False) \<Rightarrow> (Inl ServerError, s1\<lparr>products := ps\<rparr>)
                    | (ps, True) \<Rightarrow>
                        (Inr ord,
                         s1\<lparr>products := ps,
                            carts := (carts s1)(uid := \<lparr>cart_items = [], lastUpdated = Some now\<rparr>)\<rparr>))"

text \<open>The quantity of one product that a request orders, over all of its lines.\<close>

definition requested :: "request_item list \<Rightarrow> nat \<Rightarrow> nat" where
  "requested its pid = sum_list (map req_quantity (filter (\<lambda>it. productId it = pid) its))"

text \<open>A product with \<open>n\<close> units taken from, or returned to, its tracked stock.\<close>

definition take_stock :: "nat \<Rightarrow> product \<Rightarrow> product" where
  "take_stock n p = (if trackInventory p then p\<lparr>quantity := quantity p - n\<rparr> else p)"

definition return_stock :: "nat \<Rightarrow> product \<Rightarrow> product" where
  "return_stock n p = (if trackInventory p then p\<lparr>quantity := quantity p + n\<rparr> else p)"

subsection \<open>The pre-save hook of the Order schema\<close>

text \<open>
  \<^verbatim>\<open>orderSchema.pre('save')\<close>: when the status was modified (it differs from the stored
  one, \<open>old\<close>), the time stamp of the status reached is set unless it is set already.
\<close>

definition order_pre_save :: "nat \<Rightarrow> order_status \<Rightarrow> order \<Rightarrow> order" where
  "order_pre_save now old ord =
     (if status ord \<noteq> old then
        (if status ord = Shipped \<and> shippedAt ord = None then ord\<lparr>shippedAt := Some now\<rparr>
         else if status ord = Delivered \<and> deliveredAt ord = None
           then ord\<lparr>deliveredAt := Some now\<rparr>
         else if status ord = Cancelled \<and> cancelledAt ord = None
           then ord\<lparr>cancelledAt := Some now\<rparr>
         else ord)
      else ord)"

subsection \<open>Cancelling an order: \<^verbatim>\<open>PUT /api/orders/:id/cancel\<close>\<close>

text \<open>
  The loop ``restore inventory'': a line whose product is gone or is not tracked is
  skipped; the save of a raised count always passes the validator.
\<close>

fun restore_inventory :: "(nat \<rightharpoonup> product) \<Rightarrow> order_item list \<Rightarrow> (nat \<rightharpoonup> product)" where
  "restore_inventory ps [] = ps"
| "restore_inventory ps (i # rest) =
     (case ps (product i) of
        None \<Rightarrow> restore_inventory ps rest
      | Some p \<Rightarrow>
          if trackInventory p then
            restore_inventory (ps(product i \<mapsto> p\<lparr>quantity := quantity p + item_quantity i\<rparr>)) rest
          else restore_inventory ps rest)"

text \<open>
  The handler. The chain on the reason,
  \<^verbatim>\<open>body('reason').optional().trim().isLength({ min: 1, max: 500 })\<close>, is checked before
  the order is looked up, and leaves the reason trimmed; the reason stored is
  \<^verbatim>\<open>req.body.reason || 'Cancelled by user'\<close>, where a reason that passed the chain is not
  empty.
\<close>

definition cancelOrder ::
  "nat \<Rightarrow> nat \<Rightarrow> nat \<Rightarrow> string option \<Rightarrow> store \<Rightarrow> (failure + order) \<times> store" where
  "cancelOrder now uid oid r s =
     (if \<not> optional_field (\<lambda>x. isLength 1 500 (trim x)) r then (Inl ValidationFailed, s)
      else if length (orders s) \<le> oid then (Inl NotFound, s)
      else
        let ord = orders s ! oid
        in if user ord \<noteq> uid then (Inl Forbidden, s)
           else if status ord \<notin> set [Pending, Processing] then (Inl InvalidTransition, s)
           else
             let ps = restore_inventory (products s) (items ord);
                 ord' = order_pre_save now (status ord)
                          (ord\<lparr>status := Cancelled,
                               cancellationReason :=
                                 Some (case r of None \<Rightarrow> ''Cancelled by user'' | Some x \<Rightarrow> trim x),
                               cancelledAt := Some now\<rparr>)
             in (Inr ord', s\<lparr>products := ps, orders := (orders s)[oid := ord']\<rparr>))"

text \<open>The quantity of one product on the lines of a stored order.\<close>

definition ordered :: "order_item list \<Rightarrow> nat \<Rightarrow> nat" where
  "ordered its pid = sum_list (map item_quantity (filter (\<lambda>i. product i = pid) its))"

subsection \<open>Setting the status of an order: \<^verbatim>\<open>PUT /api/orders/:id/status\<close>\<close>

text \<open>
  The route is behind \<^verbatim>\<open>requireAdmin\<close>; the request is one that passed it. The chains
  \<^verbatim>\<open>body('trackingNumber').optional().trim().isLength({ min: 1, max: 100 })\<close> and
  \<^verbatim>\<open>body('notes').optional().trim().isLength({ min: 1, max: 500 })\<close> are checked before the
  order is looked up and leave both fields trimmed; a field that passed its chain is
  not empty, so \<^verbatim>\<open>if (trackingNumber)\<close> holds exactly when the field is there.
\<close>

definition transitionStatus ::
  "nat \<Rightarrow> nat \<Rightarrow> order_status \<Rightarrow> string option \<Rightarrow> string option \<Rightarrow> store
    \<Rightarrow> (failure + order) \<times> store" where
  "transitionStatus now oid new tracking note s =
     (if \<not> optional_field (\<lambda>x. isLength 1 100 (trim x)) tracking
         \<or> \<not> optional_field (\<lambda>x. isLength 1 500 (trim x)) note
        then (Inl ValidationFailed, s)
      else if length (orders s) \<le> oid then (Inl NotFound, s)
      else
        let ord = orders s ! oid;
            o1 = ord\<lparr>status := new\<rparr>;
            o2 = (case tracking of
                    None \<Rightarrow> o1
                  | Some t \<Rightarrow> o1\<lparr>trackingNumber := Some (trim t)\<rparr>);
            o3 = (case note of
                    None \<Rightarrow> o2
                  | Some n \<Rightarrow> o2\<lparr>order_notes := Some (trim n)\<rparr>);
            o4 = (if new = Shipped \<and> shippedAt o3 = None then o3\<lparr>shippedAt := Some now\<rparr>
                  else if new = Delivered \<and> deliveredAt o3 = None
                    then o3\<lparr>deliveredAt := Some now\<rparr>
                  else o3);
            o5 = order_pre_save now (status ord) o4
        in (Inr o5, s\<lparr>orders := (orders s)[oid := o5]\<rparr>))"

subsection \<open>The Payment model: hook and instance methods\<close>

text \<open>
  \<^verbatim>\<open>paymentSchema.pre('save')\<close>: the fee total is recomputed; when the status was
  modified, \<^verbatim>\<open>completedAt\<close> or \<^verbatim>\<open>failedAt\<close> is set unless it is set already.
\<close>

definition payment_pre_save :: "nat \<Rightarrow> bool \<Rightarrow> payment \<Rightarrow> payment" where
  "payment_pre_save now status_modified p =
     (let p1 = p\<lparr>fees := (fees p)\<lparr>fee_total := js_add (fee_gateway (fees p)) (fee_processing (fees p))\<rparr>\<rparr>
      in if status_modified then
           (if pay_status p1 = PayCompleted \<and> completedAt p1 = None
              then p1\<lparr>completedAt := Some now\<rparr>
            else if pay_status p1 \<in> set [PayFailed, PayCancelled] \<and> failedAt p1 = None
              then p1\<lparr>failedAt := Some now\<rparr>
            else p1)
         else p1)"

text \<open>
  The object spread \<^verbatim>\<open>{ ...this.metadata, ...metadata }\<close>: a key that is present keeps its
  place and takes the new value, a new key is appended.
\<close>

fun assign :: "(string \<times> 'v) list \<Rightarrow> string \<Rightarrow> 'v \<Rightarrow> (string \<times> 'v) list" where
  "assign [] k v = [(k, v)]"
| "assign ((k', v') # kvs) k v = (if k' = k then (k, v) # kvs else (k', v') # assign kvs k v)"

definition spread :: "(string \<times> 'v) list \<Rightarrow> (string \<times> 'v) list \<Rightarrow> (string \<times> 'v) list" where
  "spread old new = fold (\<lambda>(k, v) acc. assign acc k v) new old"

text \<open>
  \<^verbatim>\<open>markCompleted(gatewayTransactionId, metadata)\<close>. The transaction id is the number
  the gateway sends; it is stored when truthy, that is, when it is not 0.
\<close>

definition markCompleted ::
  "nat \<Rightarrow> nat option \<Rightarrow> (string \<times> meta_value) list \<Rightarrow> payment \<Rightarrow> payment" where
  "markCompleted now tid meta p =
     (let p1 = p\<lparr>pay_status := PayCompleted, completedAt := Some now\<rparr>;
          p2 = (case tid of
                  None \<Rightarrow> p1
                | Some t \<Rightarrow> if t \<noteq> 0 then p1\<lparr>gatewayTransactionId := Some t\<rparr> else p1);
          p3 = (if meta \<noteq> [] then p2\<lparr>metadata := spread (metadata p2) meta\<rparr> else p2)
      in payment_pre_save now (pay_status p \<noteq> PayCompleted) p3)"

text \<open>
  \<^verbatim>\<open>markFailed(errorCode, errorMessage)\<close>: the error is recorded when the code or the
  message is a non-empty string.
\<close>

definition truthy :: "string option \<Rightarrow> bool" where
  "truthy t = (case t of None \<Rightarrow> False | Some x \<Rightarrow> x \<noteq> [])"

definition markFailed :: "nat \<Rightarrow> string option \<Rightarrow> string option \<Rightarrow> payment \<Rightarrow> payment" where
  "markFailed now errorCode errorMessage p =
     (let p1 = p\<lparr>pay_status := PayFailed, failedAt := Some now\<rparr>;
          p2 = (if truthy errorCode \<or> truthy errorMessage
                  then p1\<lparr>error := Some \<lparr>code = errorCode, message = errorMessage\<rparr>\<rparr>
                else p1)
      in payment_pre_save now (pay_status p \<noteq> PayFailed) p2)"

text \<open>
  The virtual \<^verbatim>\<open>totalRefunded\<close>: a \<^verbatim>\<open>reduce\<close> from 0 over the refunds, each step a sum of
  doubles.
\<close>

definition totalRefunded :: "payment \<Rightarrow> js_number" where
  "totalRefunded p = foldl (\<lambda>total r. js_add total (refund_amount r)) (Num 0) (refunds p)"

text \<open>
  The virtual \<^verbatim>\<open>isRefundable\<close>; no method and no handler of the source reads it.
\<close>

definition isRefundable :: "payment \<Rightarrow> bool" where
  "isRefundable p =
     (pay_status p \<in> set [PayCompleted, PayPartiallyRefunded]
      \<and> js_less (totalRefunded p) (amount p))"

text \<open>
  \<^verbatim>\<open>addRefund(amount, reason, processedBy)\<close>. The method throws before it touches the
  document. After the \<^verbatim>\<open>push\<close> the virtual \<^verbatim>\<open>totalRefunded\<close> already counts the new
  refund, and the status test adds \<open>amount\<close> to it once more, as the source does. The
  \<^verbatim>\<open>save()\<close> validates the new refund: its amount has \<^verbatim>\<open>min: 0\<close> and its reason
  \<^verbatim>\<open>maxlength: 500\<close>; when it rejects, the stored payment is as before.
\<close>

definition addRefund ::
  "nat \<Rightarrow> js_number \<Rightarrow> string \<Rightarrow> nat option \<Rightarrow> payment \<Rightarrow> failure + payment" where
  "addRefund now amt rsn actor p =
     (if js_le amt (Num 0) then Inl RefundNotPositive
      else if js_less (amount p) (js_add (totalRefunded p) amt) then Inl RefundExceedsAmount
      else
        let p1 = p\<lparr>refunds := refunds p
                   @ [\<lparr>refund_amount = amt, reason = rsn, processedBy = actor, refundedAt = now\<rparr>]\<rparr>;
            p2 = (if js_le (amount p1) (js_add (totalRefunded p1) amt)
                    then p1\<lparr>pay_status := PayRefunded\<rparr>
                  else p1\<lparr>pay_status := PayPartiallyRefunded\<rparr>)
        in if min_0 amt \<and> length rsn \<le> 500
             then Inr (payment_pre_save now (pay_status p2 \<noteq> pay_status p) p2)
           else Inl SaveRejected)"

text \<open>
  A sequence of refund requests against one payment, each an amount and a reason: a
  request that \<^verbatim>\<open>addRefund\<close> rejects leaves the payment as it is.
\<close>

fun addRefunds :: "nat \<Rightarrow> (js_number \<times> string) list \<Rightarrow> payment \<Rightarrow> payment" where
  "addRefunds now [] p = p"
| "addRefunds now ((amt, rsn) # rest) p =
     (case addRefund now amt rsn None p of
        Inl e \<Rightarrow> addRefunds now rest p
      | Inr p' \<Rightarrow> addRefunds now rest p')"

subsection \<open>Initiating a payment: \<^verbatim>\<open>POST /api/payments/initiate\<close>\<close>

fun method_name :: "payment_method \<Rightarrow> string" where
  "method_name Card = ''card''"
| "method_name BankTransfer = ''bank_transfer''"
| "method_name Flutterwave = ''flutterwave''"
| "method_name Paystack = ''paystack''"

text \<open>
  The validators of the Payment schema that a new document of the handler can fail:
  \<^verbatim>\<open>amount\<close> has \<^verbatim>\<open>min: 0\<close>, and \<^verbatim>\<open>gateway\<close> is an enum of five names.
\<close>

definition gateway_enum :: "string list" where
  "gateway_enum = [''flutterwave'', ''paystack'', ''paypal'', ''stripe'', ''manual'']"

definition payment_schema_ok :: "payment \<Rightarrow> bool" where
  "payment_schema_ok p = (min_0 (amount p) \<and> gateway p \<in> set gateway_enum)"

text \<open>
  The filter of \<^verbatim>\<open>Payment.findOne\<close> in the handler:
  \<^verbatim>\<open>{ order: orderId, status: { $in: ['pending', 'processing', 'completed'] } }\<close>.
\<close>

definition blocks_payment :: "nat \<Rightarrow> payment \<Rightarrow> bool" where
  "blocks_payment oid p =
     (pay_order p = oid \<and> pay_status p \<in> set [PayPending, PayProcessing, PayCompleted])"

definition initiatePayment ::
  "nat \<Rightarrow> nat \<Rightarrow> nat \<Rightarrow> payment_method \<Rightarrow> store \<Rightarrow> (failure + nat) \<times> store" where
  "initiatePayment now uid oid m s =
     (if length (orders s) \<le> oid then (Inl NotFound, s)
      else
        let ord = orders s ! oid
        in if user ord \<noteq> uid then (Inl Forbidden, s)
           else if status ord \<noteq> Pending then (Inl NotEligible, s)
           else if list_ex (blocks_payment oid) (payments s) then (Inl DuplicatePayment, s)
           else
             let pay = \<lparr>pay_order = oid, pay_user = uid, amount = total (pricing ord),
                        currency = ''NGN'', pay_method = m,
                        gateway = (if m = Card then ''flutterwave'' else method_name m),
                        gatewayReference = None, gatewayTransactionId = None,
                        pay_status = PayPending, metadata = [], refunds = [],
                        fees = \<lparr>fee_gateway = Num 0, fee_processing = Num 0, fee_total = Num 0\<rparr>,
                        error = None, completedAt = None, failedAt = None\<rparr>
             in if \<not> payment_schema_ok pay then (Inl ServerError, s)
                else
                  let pay1 = payment_pre_save now True pay;
                      pay2 =
                        (case m of
                           Flutterwave \<Rightarrow>
                             pay1\<lparr>gatewayReference := Some (GatewayRef ''shopease'' oid now)\<rparr>
                         | Paystack \<Rightarrow>
                             pay1\<lparr>gatewayReference := Some (GatewayRef ''shopease'' oid now)\<rparr>
                         | BankTransfer \<Rightarrow>
                             pay1\<lparr>gatewayReference := Some (GatewayRef ''TXN'' oid now),
                                  pay_status := PayProcessing\<rparr>
                         | Card \<Rightarrow> pay1);
                      pay3 = payment_pre_save now (pay_status pay2 \<noteq> pay_status pay1) pay2
                  in (Inr (length (payments s)), s\<lparr>payments := payments s @ [pay3]\<rparr>))"

subsection \<open>Verifying a payment: \<^verbatim>\<open>POST /api/payments/verify/:paymentId\<close>\<close>

text \<open>
  What the gateway's verification endpoint gives back to \<^verbatim>\<open>axios.get\<close>: the call throws
  (\<open>Unreachable\<close>), or the body has no \<^verbatim>\<open>data\<close> field, or \<^verbatim>\<open>data\<close> is the charge itself, or
  \<^verbatim>\<open>data\<close> is an object with a boolean \<^verbatim>\<open>status\<close> whose own \<^verbatim>\<open>data\<close> field is the charge.
\<close>

record charge =
  ch_status :: string
  ch_amount :: js_number
  ch_id :: nat
  ch_currency :: string
  ch_raw :: string

datatype gateway_reply = Unreachable | NoData | FlatReply charge | NestedReply bool charge

datatype verification = Verified nat "(string \<times> meta_value) list" | NotVerified string

definition unavailable :: verification where
  "unavailable = NotVerified ''Payment verification service unavailable''"

text \<open>
  \<^verbatim>\<open>verifyFlutterwavePayment\<close>: the \<^verbatim>\<open>catch\<close> block turns every exception of the \<^verbatim>\<open>try\<close>
  block, the failed call and a property read on \<^verbatim>\<open>undefined\<close> alike, into the result
  \<open>unavailable\<close>.
\<close>

definition verifyFlutterwavePayment :: "payment \<Rightarrow> gateway_reply \<Rightarrow> verification" where
  "verifyFlutterwavePayment p reply =
     (case reply of
        Unreachable \<Rightarrow> unavailable
      | NoData \<Rightarrow> unavailable
      | FlatReply c \<Rightarrow>
          if ch_status c = ''successful'' \<and> js_le (amount p) (ch_amount c)
            then Verified (ch_id c)
                   [(''flutterwaveData'', MetaData (ch_raw c)), (''amount'', MetaNumber (ch_amount c)),
                    (''currency'', MetaString (ch_currency c))]
          else NotVerified ''Payment verification failed''
      | NestedReply b c \<Rightarrow> NotVerified ''Payment verification failed'')"

text \<open>
  \<^verbatim>\<open>verifyPaystackPayment\<close> reads \<^verbatim>\<open>data.status && data.data.status === 'success'\<close>: on a
  flat charge with a non-empty status the read of \<^verbatim>\<open>data.data.status\<close> throws.
\<close>

definition verifyPaystackPayment :: "payment \<Rightarrow> gateway_reply \<Rightarrow> verification" where
  "verifyPaystackPayment p reply =
     (case reply of
        Unreachable \<Rightarrow> unavailable
      | NoData \<Rightarrow> unavailable
      | FlatReply c \<Rightarrow>
          if ch_status c \<noteq> [] then unavailable else NotVerified ''Payment verification failed''
      | NestedReply b c \<Rightarrow>
          if b \<and> ch_status c = ''success'' \<and> js_le (amount p) (js_div_100 (ch_amount c))
            then Verified (ch_id c)
                   [(''paystackData'', MetaData (ch_raw c)),
                    (''amount'', MetaNumber (js_div_100 (ch_amount c))),
                    (''currency'', MetaString (ch_currency c))]
          else NotVerified ''Payment verification failed'')"

definition verifyPayment ::
  "nat \<Rightarrow> nat \<Rightarrow> nat \<Rightarrow> gateway_reply \<Rightarrow> store \<Rightarrow> (failure + payment) \<times> store" where
  "verifyPayment now uid pid reply s =
     (if length (payments s) \<le> pid then (Inl NotFound, s)
      else
        let p = payments s ! pid
        in if pay_user p \<noteq> uid then (Inl Forbidden, s)
           else
             let verificationResult =
                   (if gateway p = ''flutterwave'' then verifyFlutterwavePayment p reply
                    else if gateway p = ''paystack'' then verifyPaystackPayment p reply
                    else if pay_method p = BankTransfer
                      then NotVerified ''Bank transfer payments require manual verification''
                    else NotVerified ''Payment verification failed'')
             in case verificationResult of
                  Verified tid meta \<Rightarrow>
                    let p' = markCompleted now (Some tid) meta p;
                        s1 = s\<lparr>payments := (payments s)[pid := p']\<rparr>
                    in if length (orders s1) \<le> pay_order p then (Inl ServerError, s1)
                       else
                         let ord = orders s1 ! pay_order p;
                             ord' = order_pre_save now (status ord) (ord\<lparr>status := Processing\<rparr>)
                         in (Inr p', s1\<lparr>orders := (orders s1)[pay_order p := ord']\<rparr>)
                | NotVerified msg \<Rightarrow>
                    let p' = markFailed now None (Some msg) p
                    in (Inl (VerificationFailed msg), s\<lparr>payments := (payments s)[pid := p']\<rparr>))"

subsection \<open>The webhooks: \<^verbatim>\<open>POST /api/payments/webhook/flutterwave\<close> and \<^verbatim>\<open>.../paystack\<close>\<close>

text \<open>
  What a handler reads from the JSON of a delivery: the \<^verbatim>\<open>event\<close> name and the \<^verbatim>\<open>data\<close>
  object with its status, reference (\<^verbatim>\<open>tx_ref\<close> for Flutterwave, \<^verbatim>\<open>reference\<close> for
  Paystack), id, amount and currency; a field that is not there is absent.
\<close>

record charge_event =
  ce_status :: string
  ce_reference :: gateway_ref
  ce_id :: nat
  ce_amount :: js_number
  ce_currency :: string
  ce_raw :: string

record payload =
  pl_event :: "string option"
  pl_data :: "charge_event option"

text \<open>
  \<^verbatim>\<open>req.body\<close> as the body parsers leave it. The route mounts \<^verbatim>\<open>express.raw\<close>, which
  makes it a \<open>Buffer\<close> of the bytes received; when a JSON parser of the application
  ran before the router, it is the parsed object and \<^verbatim>\<open>express.raw\<close> leaves it alone.
\<close>

datatype body = Buffer string | Parsed payload

record webhook_request =
  wr_signature :: "string option"
  wr_body :: body

record config =
  flutterwave_secret_hash :: "string option"
  paystack_secret_key :: "string option"

text \<open>
  The platform: \<^verbatim>\<open>JSON.parse\<close> of a text (\<open>None\<close> when it throws),
  \<^verbatim>\<open>JSON.stringify\<close> of a \<^verbatim>\<open>req.body\<close>, and the hexadecimal HMAC-SHA512 of a text under
  a key.
\<close>

record platform =
  json_parse :: "string \<Rightarrow> payload option"
  json_stringify :: "body \<Rightarrow> string"
  hmac_sha512 :: "string \<Rightarrow> string \<Rightarrow> string"

text \<open>\<^verbatim>\<open>findOne\<close>: the position of the first document that matches.\<close>

fun findOne :: "('d \<Rightarrow> bool) \<Rightarrow> 'd list \<Rightarrow> nat option" where
  "findOne P [] = None"
| "findOne P (x # xs) = (if P x then Some 0 else map_option Suc (findOne P xs))"

text \<open>
  The body both handlers share once the event is a successful charge: the payment is
  looked up by its gateway reference and, when it is still \<open>pending\<close>, completed, and
  its order is set to \<open>processing\<close>.
\<close>

definition settle_charge ::
  "nat \<Rightarrow> gateway_ref \<Rightarrow> nat \<Rightarrow> (string \<times> meta_value) list \<Rightarrow> store \<Rightarrow> store" where
  "settle_charge now ref tid meta s =
     (case findOne (\<lambda>p. gatewayReference p = Some ref) (payments s) of
        None \<Rightarrow> s
      | Some i \<Rightarrow>
          let p = payments s ! i
          in if pay_status p = PayPending then
               let s1 = s\<lparr>payments := (payments s)[i := markCompleted now (Some tid) meta p]\<rparr>
               in if length (orders s1) \<le> pay_order p then s1
                  else
                    let ord = orders s1 ! pay_order p
                    in s1\<lparr>orders := (orders s1)[pay_order p :=
                            order_pre_save now (status ord) (ord\<lparr>status := Processing\<rparr>)]\<rparr>
             else s)"

text \<open>
  Flutterwave: \<^verbatim>\<open>!signature || signature !== secretHash\<close> rejects. Then
  \<^verbatim>\<open>JSON.parse(req.body)\<close>: a \<open>Buffer\<close> is parsed as its text; an object that an earlier
  parser left is turned into the text \<^verbatim>\<open>[object Object]\<close>, on which the parse throws.
  A payload without \<^verbatim>\<open>data\<close> throws at \<^verbatim>\<open>data.status\<close>. Every exception ends in the
  \<^verbatim>\<open>catch\<close> block.
\<close>

definition flutterwave_rejects :: "config \<Rightarrow> webhook_request \<Rightarrow> bool" where
  "flutterwave_rejects cfg req =
     (\<not> truthy (wr_signature req) \<or> wr_signature req \<noteq> flutterwave_secret_hash cfg)"

definition webhook_flutterwave ::
  "platform \<Rightarrow> config \<Rightarrow> nat \<Rightarrow> webhook_request \<Rightarrow> store \<Rightarrow> (failure + unit) \<times> store" where
  "webhook_flutterwave pf cfg now req s =
     (if flutterwave_rejects cfg req then (Inl InvalidSignature, s)
      else
        case (case wr_body req of Buffer b \<Rightarrow> json_parse pf b | Parsed obj \<Rightarrow> None) of
          None \<Rightarrow> (Inl ServerError, s)
        | Some pl \<Rightarrow>
            (case pl_data pl of
               None \<Rightarrow> (Inl ServerError, s)
             | Some d \<Rightarrow>
                 if ce_status d = ''successful'' then
                   (Inr (),
                    settle_charge now (ce_reference d) (ce_id d)
                      [(''flutterwaveData'', MetaData (ce_raw d)),
                       (''amount'', MetaNumber (ce_amount d)),
                       (''currency'', MetaString (ce_currency d))] s)
                 else (Inr (), s)))"

text \<open>
  Paystack: \<^verbatim>\<open>createHmac\<close> throws when the secret is unset; the digest of
  \<^verbatim>\<open>JSON.stringify(req.body)\<close> is compared with the header. Then \<^verbatim>\<open>event\<close> and \<^verbatim>\<open>data\<close>
  are read from \<^verbatim>\<open>req.body\<close> itself: a \<open>Buffer\<close> has neither, so no event of it is a
  \<^verbatim>\<open>charge.success\<close>; on a parsed object \<^verbatim>\<open>data.reference\<close> throws when a
  \<^verbatim>\<open>charge.success\<close> event has no \<^verbatim>\<open>data\<close>.
\<close>

definition webhook_paystack ::
  "platform \<Rightarrow> config \<Rightarrow> nat \<Rightarrow> webhook_request \<Rightarrow> store \<Rightarrow> (failure + unit) \<times> store" where
  "webhook_paystack pf cfg now req s =
     (case paystack_secret_key cfg of
        None \<Rightarrow> (Inl ServerError, s)
      | Some secret \<Rightarrow>
          if Some (hmac_sha512 pf secret (json_stringify pf (wr_body req))) \<noteq> wr_signature req
            then (Inl InvalidSignature, s)
          else
            case wr_body req of
              Buffer b \<Rightarrow> (Inr (), s)
            | Parsed pl \<Rightarrow>
                if pl_event pl = Some ''charge.success'' then
                  (case pl_data pl of
                     None \<Rightarrow> (Inl ServerError, s)
                   | Some d \<Rightarrow>
                       (Inr (),
                        settle_charge now (ce_reference d) (ce_id d)
                          [(''paystackData'', MetaData (ce_raw d)),
                           (''amount'', MetaNumber (js_div_100 (ce_amount d))),
                           (''currency'', MetaString (ce_currency d))] s))
                else (Inr (), s))"

text \<open>The two routes as one operation, selected by the gateway named in the path.\<close>

datatype gateway_name = FlutterwaveGateway | PaystackGateway

definition handleWebhook ::
  "platform \<Rightarrow> config \<Rightarrow> gateway_name \<Rightarrow> nat \<Rightarrow> webhook_request \<Rightarrow> store
    \<Rightarrow> (failure + unit) \<times> store" where
  "handleWebhook pf cfg gw now req s =
     (case gw of
        FlutterwaveGateway \<Rightarrow> webhook_flutterwave pf cfg now req s
      | PaystackGateway \<Rightarrow> webhook_paystack pf cfg now req s)"



subsection \<open>Example data\<close>

definition product_A :: product where
  "product_A = \<lparr>title = ''A'', price = Num 10000, prod_status = Active,
                 trackInventory = True, quantity = 5\<rparr>"

definition product_B :: product where
  "product_B = \<lparr>title = ''B'', price = Num 500, prod_status = Active,
                 trackInventory = True, quantity = 3\<rparr>"

definition product_C :: product where
  "product_C = \<lparr>title = ''C'', price = Num 1999, prod_status = Active,
                 trackInventory = False, quantity = 0\<rparr>"

definition shop :: "(nat \<rightharpoonup> product) \<Rightarrow> store" where
  "shop ps = \<lparr>products = ps, orders = [], payments = [],
               carts = (\<lambda>u. \<lparr>cart_items = [], lastUpdated = None\<rparr>)\<rparr>"

text \<open>
  A stand-in for the validator library in the examples: an e-mail address is one with
  an \<^verbatim>\<open>@\<close>, and normalizing leaves it as it is.
\<close>

definition lenient :: validator where
  "lenient = \<lparr>isEmail = (\<lambda>x. CHR ''@'' \<in> set x), normalizeEmail = (\<lambda>x. x)\<rparr>"

definition address_of :: "string \<Rightarrow> address" where
  "address_of mail =
     \<lparr>firstName = Some '' Ada'', lastName = Some ''Obi'', email = Some mail,
      phone = Some ''08031234567'', street = Some ''12 Marina Road '', city = Some ''Lagos'',
      state = Some ''Lagos'', postalCode = None\<rparr>"

definition billing_office :: address where
  "billing_office =
     \<lparr>firstName = Some ''Accounts'', lastName = None, email = None, phone = None,
      street = Some ''4 Broad Street'', city = Some ''Lagos'', state = None,
      postalCode = None\<rparr>"

definition order_for :: "request_item list \<Rightarrow> order_request" where
  "order_for its = \<lparr>req_items = its, req_shippingAddress = address_of ''ada@example.com'',
                     req_billingAddress = None, req_paymentMethod = Card\<rparr>"

definition two_of_A :: "order_item list" where
  "two_of_A = [\<lparr>product = 1, item_title = ''A'', item_price = Num 10000, item_quantity = 2,
                itemTotal = Num 20000\<rparr>]"

definition order_of :: "nat \<Rightarrow> order_status \<Rightarrow> order" where
  "order_of uid st =
     \<lparr>user = uid, items = two_of_A,
      pricing = \<lparr>subtotal = Num 20000, tax = Num 1500, shipping = Num 2500, total = Num 24000\<rparr>,
      shippingAddress = sanitize_shipping lenient (address_of ''ada@example.com''),
      billingAddress = sanitize_shipping lenient (address_of ''ada@example.com''),
      paymentMethod = Flutterwave, status = st, trackingNumber = None, order_notes = None,
      cancellationReason = None, cancelledAt = None, shippedAt = None, deliveredAt = None\<rparr>"

definition payment_of :: "nat \<Rightarrow> nat \<Rightarrow> payment_status \<Rightarrow> js_number \<Rightarrow> payment" where
  "payment_of oid uid st amt =
     \<lparr>pay_order = oid, pay_user = uid, amount = amt, currency = ''NGN'',
      pay_method = Flutterwave, gateway = ''flutterwave'',
      gatewayReference = Some (GatewayRef ''shopease'' oid 1700000000),
      gatewayTransactionId = None, pay_status = st, metadata = [], refunds = [],
      fees = \<lparr>fee_gateway = Num 0, fee_processing = Num 0, fee_total = Num 0\<rparr>,
      error = None, completedAt = None, failedAt = None\<rparr>"

definition shop_with :: "order list \<Rightarrow> payment list \<Rightarrow> store" where
  "shop_with os ps = (shop [1 \<mapsto> product_A])\<lparr>orders := os, payments := ps\<rparr>"

definition secrets :: config where
  "secrets = \<lparr>flutterwave_secret_hash = Some ''fw-hash-7c1'',
              paystack_secret_key = Some ''sk_test_51''\<rparr>"

definition charge_for :: "string \<Rightarrow> nat \<Rightarrow> charge_event" where
  "charge_for st oid =
     \<lparr>ce_status = st, ce_reference = GatewayRef ''shopease'' oid 1700000000, ce_id = 4471,
      ce_amount = Num 24000, ce_currency = ''NGN'', ce_raw = ''{...}''\<rparr>"

text \<open>
  A stand-in for the platform in the examples. The one text that parses is \<^verbatim>\<open>F1\<close>, a
  Flutterwave event about the payment of order 1; an object is stringified to \<^verbatim>\<open>P1\<close>
  when it is the Paystack event about that payment, and to \<^verbatim>\<open>{}\<close> otherwise; a
  \<open>Buffer\<close> is stringified to its text between brackets, and the digest is the key
  followed by the text.
\<close>

definition flutterwave_event :: payload where
  "flutterwave_event = \<lparr>pl_event = Some ''charge.completed'',
                          pl_data = Some (charge_for ''successful'' 1)\<rparr>"

definition paystack_event :: payload where
  "paystack_event = \<lparr>pl_event = Some ''charge.success'',
                       pl_data = Some (charge_for ''success'' 1)\<rparr>"

definition toy_platform :: platform where
  "toy_platform =
     \<lparr>json_parse = (\<lambda>t. if t = ''F1'' then Some flutterwave_event else None),
      json_stringify =
        (\<lambda>b. case b of
               Buffer t \<Rightarrow> ''['' @ t @ '']''
             | Parsed pl \<Rightarrow> if pl = paystack_event then ''P1'' else ''{}''),
      hmac_sha512 = (\<lambda>k t. k @ t)\<rparr>"

text \<open>
  Three payments: a pending one of order 0, then a pending and a failed one of order 1,
  which both carry the reference of order 1.
\<close>

definition three_payments :: "payment list" where
  "three_payments =
     [payment_of 0 3 PayPending (Num 24000), payment_of 1 3 PayPending (Num 24000),
      payment_of 1 3 PayFailed (Num 24000)]"

section \<open>Properties\<close>

subsection \<open>Numbers\<close>

lemma pow2_pos: "0 < pow2 k"
  by (simp add: pow2_def)

lemma nearest_even_nonneg: "0 \<le> m \<Longrightarrow> 0 \<le> nearest_even m"
  by (auto simp: nearest_even_def Let_def)

lemma round_double_min_0: "0 \<le> x \<Longrightarrow> min_0 (round_double x)"
proof (cases "x = 0")
  case True
  then show ?thesis by (simp add: round_double_def min_0_def)
next
  case False
  assume "0 \<le> x"
  with False have x: "0 < x" by simp
  have "0 \<le> nearest_even (\<bar>x\<bar> / pow2 k)" for k
    using pow2_pos[of k] by (intro nearest_even_nonneg) simp
  then have "0 \<le> sgn x * of_int (nearest_even (\<bar>x\<bar> / pow2 k)) * pow2 k" for k
    using x pow2_pos[of k] by (simp add: sgn_if)
  then show ?thesis
    using x by (simp add: round_double_def min_0_def Let_def)
qed

lemma js_add_min_0: "min_0 x \<Longrightarrow> min_0 y \<Longrightarrow> min_0 (js_add x y)"
  using round_double_min_0
  by (cases x; cases y) (auto simp: min_0_def)

lemma js_mul_min_0: "min_0 x \<Longrightarrow> 0 < b \<Longrightarrow> min_0 (js_mul x (Num b))"
  using round_double_min_0
  by (cases x) (auto simp: min_0_def)

lemma min_0_vat: "min_0 x \<Longrightarrow> min_0 (js_mul x vat_rate)"
  unfolding vat_rate_def by (rule js_mul_min_0) simp_all

lemma round_double_0: "round_double 0 = Num 0"
  by (simp add: round_double_def)

text \<open>The doubles of the examples.\<close>

lemma vat_rate_is_nearest: "round_double (75 / 1000) = vat_rate"
  unfolding vat_rate_def by code_simp

lemma double_values:
  "round_double 10 = Num 10"
  "round_double 20 = Num 20"
  "round_double 50 = Num 50"
  "round_double 100 = Num 100"
  "round_double 110 = Num 110"
  "round_double 1000 = Num 1000"
  "round_double 1999 = Num 1999"
  "round_double 10000 = Num 10000"
  "round_double 11000 = Num 11000"
  "round_double 12000 = Num 12000"
  "round_double 12900 = Num 12900"
  "round_double 15400 = Num 15400"
  "round_double 20000 = Num 20000"
  "round_double 21500 = Num 21500"
  "round_double 24000 = Num 24000"
  by code_simp+

lemma vat_values:
  "js_mul (Num 20000) vat_rate = Num 1500"
  "js_mul (Num 12000) vat_rate = Num 900"
  "js_mul (Num 1999) vat_rate = Num (5275016985418137 / 35184372088832)"
  "round_double (75608576790993305 / 35184372088832) = Num (2362768024718541 / 1099511627776)"
  "round_double (5111547094158541 / 1099511627776) = Num (5111547094158541 / 1099511627776)"
  by code_simp+

subsection \<open>Creating an order\<close>

lemma requested_Nil: "requested [] pid = 0"
  by (simp add: requested_def)

lemma requested_Cons:
  "requested (it # its) pid = (if productId it = pid then req_quantity it else 0) + requested its pid"
  by (simp add: requested_def)

lemma requested_ge: "it \<in> set its \<Longrightarrow> req_quantity it \<le> requested its (productId it)"
  by (induction its) (auto simp: requested_Cons)

lemma validate_and_total_ok:
  "\<forall>it\<in>set its. \<exists>p. ps (productId it) = Some p \<and> prod_status p = Active
       \<and> (trackInventory p \<longrightarrow> req_quantity it \<le> quantity p) \<Longrightarrow>
   validate_and_total ps its sub acc =
     Inr (foldl js_add sub
            (map (\<lambda>it. js_mul (price (the (ps (productId it)))) (Num (of_nat (req_quantity it)))) its),
          acc @ map (\<lambda>it. \<lparr>product = productId it, item_title = title (the (ps (productId it))),
                 item_price = price (the (ps (productId it))), item_quantity = req_quantity it,
                 itemTotal = js_mul (price (the (ps (productId it))))
                               (Num (of_nat (req_quantity it)))\<rparr>) its)"
proof (induction its arbitrary: sub acc)
  case Nil
  then show ?case by simp
next
  case (Cons it its)
  from Cons.prems obtain p where p: "ps (productId it) = Some p" "prod_status p = Active"
    "trackInventory p \<longrightarrow> req_quantity it \<le> quantity p" by auto
  from Cons.prems have rest: "\<forall>it\<in>set its. \<exists>p. ps (productId it) = Some p \<and> prod_status p = Active
       \<and> (trackInventory p \<longrightarrow> req_quantity it \<le> quantity p)" by simp
  show ?case using p by (simp add: Cons.IH[OF rest] not_less)
qed

lemma take_stock_0: "take_stock 0 p = p"
  by (simp add: take_stock_def)

lemma take_stock_take_stock: "take_stock m (take_stock n p) = take_stock (n + m) p"
  by (simp add: take_stock_def)

lemma update_inventory_ok:
  "\<forall>it\<in>set its. \<exists>p. ps (productId it) = Some p
       \<and> (trackInventory p \<longrightarrow> requested its (productId it) \<le> quantity p) \<Longrightarrow>
   update_inventory ps its =
     (\<lambda>pid. map_option (take_stock (requested its pid)) (ps pid), True)"
proof (induction its arbitrary: ps)
  case Nil
  show ?case by (simp add: requested_Nil fun_eq_iff take_stock_0 option.map_ident)
next
  case (Cons it its)
  from Cons.prems obtain p where p: "ps (productId it) = Some p"
    "trackInventory p \<longrightarrow> requested (it # its) (productId it) \<le> quantity p" by auto
  let ?ps = "ps(productId it \<mapsto> take_stock (req_quantity it) p)"
  have step: "update_inventory ps (it # its) = update_inventory ?ps its"
    using p by (auto simp: take_stock_def requested_Cons map_upd_triv)
  have rest: "\<forall>it'\<in>set its. \<exists>p'. ?ps (productId it') = Some p'
     \<and> (trackInventory p' \<longrightarrow> requested its (productId it') \<le> quantity p')"
  proof
    fix it' assume "it' \<in> set its"
    with Cons.prems obtain p' where p': "ps (productId it') = Some p'"
      "trackInventory p' \<longrightarrow> requested (it # its) (productId it') \<le> quantity p'" by auto
    show "\<exists>p'. ?ps (productId it') = Some p'
     \<and> (trackInventory p' \<longrightarrow> requested its (productId it') \<le> quantity p')"
      using p p' by (auto simp: requested_Cons take_stock_def split: if_splits)
  qed
  show ?case unfolding step Cons.IH[OF rest] using p
    by (auto simp: requested_Cons fun_eq_iff take_stock_take_stock take_stock_0)
qed

lemma foldl_js_add_min_0:
  "min_0 sub \<Longrightarrow> (\<And>x. x \<in> set xs \<Longrightarrow> min_0 x) \<Longrightarrow> min_0 (foldl js_add sub xs)"
  by (induction xs arbitrary: sub) (auto simp: js_add_min_0)

lemma calculate_pricing_min_0:
  assumes "min_0 sub"
  shows "min_0 (subtotal (calculate_pricing sub))" "min_0 (tax (calculate_pricing sub))"
    "min_0 (shipping (calculate_pricing sub))" "min_0 (total (calculate_pricing sub))"
proof -
  have ship: "min_0 (if js_less (Num 50000) sub then Num 0 else Num 2500)"
    by (simp add: min_0_def)
  show "min_0 (subtotal (calculate_pricing sub))" "min_0 (tax (calculate_pricing sub))"
    "min_0 (shipping (calculate_pricing sub))"
    using assms ship by (simp_all add: calculate_pricing_def Let_def min_0_vat)
  show "min_0 (total (calculate_pricing sub))"
    using assms ship by (simp add: calculate_pricing_def Let_def min_0_vat js_add_min_0)
qed

text \<open>
  A shipping address that passed the chains of the route is one the Order schema
  accepts, but for its e-mail: the route asks the library, the schema its own pattern.
\<close>

lemma trim_Nil: "trim [] = []"
  by (simp add: trim_def)

lemma required_trimmed:
  "required_field (\<lambda>x. isLength lo hi (trim x)) f \<Longrightarrow> 1 \<le> lo \<Longrightarrow>
   present (map_option trim f) \<and> maxlength hi (map_option trim f)"
  by (cases f) (auto simp: required_field_def isLength_def present_def maxlength_def trim_Nil)

lemma required_plain:
  "required_field (isLength lo hi) f \<Longrightarrow> 1 \<le> lo \<Longrightarrow> present f \<and> maxlength hi f"
  by (cases f) (auto simp: required_field_def isLength_def present_def maxlength_def)

lemma optional_plain: "optional_field (isLength lo hi) f \<Longrightarrow> maxlength hi f"
  by (cases f) (auto simp: optional_field_def isLength_def maxlength_def)

lemma email_pattern_nonempty: "email_pattern x \<Longrightarrow> x \<noteq> []"
  by (auto simp: email_pattern_def)

lemma shipping_valid_schema:
  assumes "shipping_valid v a"
    and "\<forall>x. email a = Some x \<longrightarrow> email_pattern (normalizeEmail v x)"
  shows "shipping_required (sanitize_shipping v a) \<and> address_schema_ok (sanitize_shipping v a)"
proof -
  from assms(1) have
    f: "required_field (\<lambda>x. isLength 1 50 (trim x)) (firstName a)" and
    l: "required_field (\<lambda>x. isLength 1 50 (trim x)) (lastName a)" and
    p: "required_field (isLength 10 15) (phone a)" and
    st: "required_field (\<lambda>x. isLength 5 200 (trim x)) (street a)" and
    c: "required_field (\<lambda>x. isLength 1 50 (trim x)) (city a)" and
    s: "required_field (\<lambda>x. isLength 1 50 (trim x)) (state a)" and
    z: "optional_field (isLength 1 10) (postalCode a)"
    by (simp_all add: shipping_valid_def)
  from assms obtain x where x: "email a = Some x" "email_pattern (normalizeEmail v x)"
    by (auto simp: shipping_valid_def split: option.splits)
  have mail: "present (map_option (normalizeEmail v) (email a))"
    using x email_pattern_nonempty by (simp add: present_def)
  show ?thesis
    using required_trimmed[OF f] required_trimmed[OF l] required_plain[OF p]
      required_trimmed[OF st] required_trimmed[OF c] required_trimmed[OF s]
      optional_plain[OF z] mail x
    by (simp add: shipping_required_def address_schema_ok_def sanitize_shipping_def)
qed

text \<open>
  Claim C1, amended. A request that passes the chains of the route, whose items all
  validate (every product exists, is active, has a price the schema accepts and, when
  tracked, has the stock for the quantity ordered of it) and whose addresses the Order
  schema accepts (the normalized e-mail matches the schema's pattern, a billing address
  that is supplied passes the schema's validators) is answered with the created order.
  The order is appended to the collection with status \<open>pending\<close>; its lines snapshot
  product, price and quantity; each line total is the double product of price and
  quantity, the subtotal their sum in doubles from left to right, the tax the double
  product of the subtotal and 0.075, the shipping 2500 unless the subtotal is over
  50000, and the total the double sum of the three. Every tracked product has lost
  exactly the quantity ordered of it while every other product is as it was; the
  payments are untouched and the requester's cart is emptied.
\<close>

theorem createOrder_valid_request:
  assumes nonempty: "req_items req \<noteq> []"
    and valid: "\<forall>it\<in>set (req_items req). 1 \<le> req_quantity it \<and>
      (\<exists>p. products s (productId it) = Some p \<and> prod_status p = Active \<and> min_0 (price p)
         \<and> (trackInventory p \<longrightarrow> requested (req_items req) (productId it) \<le> quantity p))"
    and route: "shipping_valid v (req_shippingAddress req)"
    and mail: "\<forall>x. email (req_shippingAddress req) = Some x
        \<longrightarrow> email_pattern (normalizeEmail v x)"
    and billing: "\<forall>b. req_billingAddress req = Some b \<longrightarrow> address_schema_ok b"
  shows "case createOrder v now uid req s of
      (Inl e, s') \<Rightarrow> False
    | (Inr ord, s') \<Rightarrow>
        orders s' = orders s @ [ord] \<and> status ord = Pending
        \<and> map product (items ord) = map productId (req_items req)
        \<and> map item_quantity (items ord) = map req_quantity (req_items req)
        \<and> map item_price (items ord)
            = map (\<lambda>it. price (the (products s (productId it)))) (req_items req)
        \<and> map itemTotal (items ord)
            = map (\<lambda>i. js_mul (item_price i) (Num (of_nat (item_quantity i)))) (items ord)
        \<and> subtotal (pricing ord) = foldl js_add (Num 0) (map itemTotal (items ord))
        \<and> tax (pricing ord) = js_mul (subtotal (pricing ord)) vat_rate
        \<and> shipping (pricing ord)
            = (if js_less (Num 50000) (subtotal (pricing ord)) then Num 0 else Num 2500)
        \<and> total (pricing ord)
            = js_add (js_add (subtotal (pricing ord)) (tax (pricing ord))) (shipping (pricing ord))
        \<and> (\<forall>pid. products s' pid
              = map_option (take_stock (requested (req_items req) pid)) (products s pid))
        \<and> payments s' = payments s
        \<and> carts s' uid = \<lparr>cart_items = [], lastUpdated = Some now\<rparr>"
proof -
  let ?its = "req_items req"
  let ?ps = "products s"
  let ?total = "\<lambda>it. js_mul (price (the (?ps (productId it)))) (Num (of_nat (req_quantity it)))"
  let ?line = "\<lambda>it. \<lparr>product = productId it, item_title = title (the (?ps (productId it))),
                 item_price = price (the (?ps (productId it))), item_quantity = req_quantity it,
                 itemTotal = ?total it\<rparr>"
  let ?sub = "foldl js_add (Num 0) (map ?total ?its)"
  have le_req: "req_quantity it \<le> requested ?its (productId it)" if "it \<in> set ?its" for it
    using that by (rule requested_ge)
  have v1: "\<forall>it\<in>set ?its. \<exists>p. ?ps (productId it) = Some p \<and> prod_status p = Active
       \<and> (trackInventory p \<longrightarrow> req_quantity it \<le> quantity p)"
    using valid le_req by (meson le_trans)
  have v2: "\<forall>it\<in>set ?its. \<exists>p. ?ps (productId it) = Some p
       \<and> (trackInventory p \<longrightarrow> requested ?its (productId it) \<le> quantity p)"
    using valid by blast
  have loop1: "validate_and_total ?ps ?its (Num 0) [] = Inr (?sub, map ?line ?its)"
    using validate_and_total_ok[OF v1, of "Num 0" "[]"] by simp
  have loop2: "update_inventory ?ps ?its
      = (\<lambda>pid. map_option (take_stock (requested ?its pid)) (?ps pid), True)"
    by (rule update_inventory_ok[OF v2])
  have passes: "\<not> (?its = [] \<or> list_ex (\<lambda>it. req_quantity it < 1) ?its
      \<or> \<not> shipping_valid v (req_shippingAddress req))"
    using valid nonempty route by (auto simp: list_ex_iff)
  have line_min_0: "min_0 (price (the (?ps (productId it)))) \<and> min_0 (?total it)"
    if "it \<in> set ?its" for it
  proof -
    from valid that obtain p where p: "?ps (productId it) = Some p" "min_0 (price p)"
      "1 \<le> req_quantity it" by auto
    then show ?thesis by (simp add: js_mul_min_0)
  qed
  have sub_min_0: "min_0 ?sub"
    using line_min_0 by (intro foldl_js_add_min_0) (auto simp: min_0_def)
  have items_ok: "list_all (\<lambda>i. min_0 (item_price i) \<and> 1 \<le> item_quantity i \<and> min_0 (itemTotal i))
      (map ?line ?its)"
    using valid line_min_0 by (auto simp: list_all_iff)
  let ?ship = "sanitize_shipping v (req_shippingAddress req)"
  let ?ord = "\<lparr>user = uid, items = map ?line ?its, pricing = calculate_pricing ?sub,
                shippingAddress = ?ship,
                billingAddress = (case req_billingAddress req of None \<Rightarrow> ?ship | Some b \<Rightarrow> b),
                paymentMethod = req_paymentMethod req, status = Pending,
                trackingNumber = None, order_notes = None, cancellationReason = None,
                cancelledAt = None, shippedAt = None, deliveredAt = None\<rparr>"
  have addresses: "shipping_required ?ship" "address_schema_ok ?ship"
    "address_schema_ok (case req_billingAddress req of None \<Rightarrow> ?ship | Some b \<Rightarrow> b)"
    using shipping_valid_schema[OF route mail] billing by (auto split: option.splits)
  have schema: "order_schema_ok ?ord"
    using items_ok calculate_pricing_min_0[OF sub_min_0] addresses
    by (simp add: order_schema_ok_def)
  have res: "createOrder v now uid req s =
      (Inr ?ord,
       s\<lparr>orders := orders s @ [?ord],
          products := (\<lambda>pid. map_option (take_stock (requested ?its pid)) (?ps pid)),
          carts := (carts s)(uid := \<lparr>cart_items = [], lastUpdated = Some now\<rparr>)\<rparr>)"
    unfolding createOrder_def using passes schema
    by (simp add: loop1 loop2 Let_def)
  show ?thesis
    unfolding res by (simp add: comp_def calculate_pricing_def Let_def)
qed

lemmas example_addresses =
  shipping_valid_def sanitize_shipping_def shipping_required_def address_schema_ok_def
  required_field_def optional_field_def present_def maxlength_def isLength_def trim_def
  is_space_def email_pattern_def domain_pattern_def is_word_def lenient_def address_of_def
  billing_office_def

text \<open>
  The cart of the specification's example: one product at 10000, quantity 2. The first
  name and the street of the request are stored trimmed.
\<close>

theorem createOrder_example_cart:
  "case createOrder lenient 1700000000 3 (order_for [\<lparr>productId = 1, req_quantity = 2\<rparr>])
          (shop [1 \<mapsto> product_A]) of
      (Inl e, s') \<Rightarrow> False
    | (Inr ord, s') \<Rightarrow>
        pricing ord
          = \<lparr>subtotal = Num 20000, tax = Num 1500, shipping = Num 2500, total = Num 24000\<rparr>
        \<and> orders s' = [ord]
        \<and> map_option quantity (products s' 1) = Some 3
        \<and> firstName (shippingAddress ord) = Some ''Ada''
        \<and> street (shippingAddress ord) = Some ''12 Marina Road''"
proof -
  let ?req = "order_for [\<lparr>productId = 1, req_quantity = 2\<rparr>]"
  let ?s = "shop [1 \<mapsto> product_A]"
  have nonempty: "req_items ?req \<noteq> []"
    by (simp add: order_for_def)
  have valid: "\<forall>it\<in>set (req_items ?req). 1 \<le> req_quantity it \<and>
      (\<exists>p. products ?s (productId it) = Some p \<and> prod_status p = Active \<and> min_0 (price p)
         \<and> (trackInventory p \<longrightarrow> requested (req_items ?req) (productId it) \<le> quantity p))"
    by (simp add: order_for_def shop_def product_A_def requested_def min_0_def)
  have route: "shipping_valid lenient (req_shippingAddress ?req)"
    by (simp add: order_for_def example_addresses)
  have mail: "\<forall>x. email (req_shippingAddress ?req) = Some x
      \<longrightarrow> email_pattern (normalizeEmail lenient x)"
    by (simp add: order_for_def example_addresses)
  have billing: "\<forall>b. req_billingAddress ?req = Some b \<longrightarrow> address_schema_ok b"
    by (simp add: order_for_def)
  show ?thesis
    using createOrder_valid_request[OF nonempty valid route mail billing,
        where now = 1700000000 and uid = 3]
    by (simp add: createOrder_def order_for_def shop_def product_A_def requested_def
        calculate_pricing_def order_schema_ok_def take_stock_def min_0_def Let_def
        double_values vat_values example_addresses)
qed

text \<open>
  Claim C1 as stated fails on the code in two ways. A request whose items validate and
  whose e-mail address ends in \<^verbatim>\<open>.info\<close> passes the chains of the route, is refused by
  the pattern of the Order schema when the order is saved, and is answered 500 with no
  order and no change of stock. And the amounts are doubles: for one product at 1999 the
  tax is the double 149.92499999999998..., not 7.5% of 1999, which is 149.925.
\<close>

theorem createOrder_schema_and_rounding:
  "shipping_valid lenient (address_of ''ada@example.info'')
   \<and> createOrder lenient 1700000000 3
        ((order_for [\<lparr>productId = 1, req_quantity = 2\<rparr>])
           \<lparr>req_shippingAddress := address_of ''ada@example.info''\<rparr>)
        (shop [1 \<mapsto> product_A])
      = (Inl ServerError, shop [1 \<mapsto> product_A])
   \<and> (case createOrder lenient 1700000000 3 (order_for [\<lparr>productId = 3, req_quantity = 1\<rparr>])
          (shop [3 \<mapsto> product_C]) of
        (Inl e, s') \<Rightarrow> False
      | (Inr ord, s') \<Rightarrow>
          subtotal (pricing ord) = Num 1999
          \<and> tax (pricing ord) = Num (5275016985418137 / 35184372088832)
          \<and> tax (pricing ord) \<noteq> Num (1999 * (75 / 1000)))"
  by (simp add: createOrder_def order_for_def shop_def product_A_def product_C_def
      calculate_pricing_def order_schema_ok_def min_0_def Let_def
      double_values vat_values example_addresses)

lemma threshold_values:
  "round_double (13743895347200001 / 274877906944) = Num 50000"
  "js_mul (Num 50000) vat_rate = Num 3750"
  "round_double 50000 = Num 50000"
  "round_double 53750 = Num 53750"
  "round_double 56250 = Num 56250"
  by code_simp+

text \<open>
  The threshold of free shipping is tested on the double subtotal. Three units at
  16666.666666666668, a double, cost more than 50000 as a rational; the product in
  doubles is 50000, and shipping is charged.
\<close>

lemma createOrder_threshold_in_doubles:
  "(case createOrder lenient 1700000000 3 (order_for [\<lparr>productId = 3, req_quantity = 3\<rparr>])
          (shop [3 \<mapsto> product_C\<lparr>price := Num (4581298449066667 / 274877906944)\<rparr>]) of
      (Inl e, s') \<Rightarrow> False
    | (Inr ord, s') \<Rightarrow>
        pricing ord
          = \<lparr>subtotal = Num 50000, tax = Num 3750, shipping = Num 2500, total = Num 56250\<rparr>)
   \<and> (50000 :: rat) < 4581298449066667 / 274877906944 * 3"
  by (simp add: createOrder_def order_for_def shop_def product_C_def
      calculate_pricing_def order_schema_ok_def min_0_def Let_def
      double_values threshold_values example_addresses)

text \<open>
  What the handler does keep of ``all or nothing'': an item that the first loop refuses
  ends the request before anything is written, and the response names the product.
\<close>

lemma createOrder_rejects_before_any_write:
  assumes "req_items req \<noteq> []" "\<not> list_ex (\<lambda>it. req_quantity it < 1) (req_items req)"
    and "shipping_valid v (req_shippingAddress req)"
    and "validate_and_total (products s) (req_items req) (Num 0) [] = Inl e"
  shows "createOrder v now uid req s = (Inl e, s)"
  using assms by (simp add: createOrder_def)

lemma validate_and_total_names_offender:
  "validate_and_total ps its sub acc = Inl e \<Longrightarrow>
   \<exists>it\<in>set its.
     (ps (productId it) = None \<and> e = ProductNotFound (productId it))
     \<or> (\<exists>p. ps (productId it) = Some p \<and> prod_status p \<noteq> Active \<and> e = ProductUnavailable (title p))
     \<or> (\<exists>p. ps (productId it) = Some p \<and> trackInventory p \<and> quantity p < req_quantity it
            \<and> e = InsufficientStock (title p) (quantity p))"
proof (induction its arbitrary: sub acc)
  case Nil
  then show ?case by simp
next
  case (Cons it its)
  then show ?case
    by (cases "ps (productId it)") (auto split: if_splits)
qed

lemma validate_and_total_fails:
  "it \<in> set its \<Longrightarrow>
   ps (productId it) = None
     \<or> (\<exists>p. ps (productId it) = Some p
           \<and> (prod_status p \<noteq> Active \<or> trackInventory p \<and> quantity p < req_quantity it)) \<Longrightarrow>
   \<exists>e. validate_and_total ps its sub acc = Inl e"
proof (induction its arbitrary: sub acc)
  case Nil
  then show ?case by simp
next
  case (Cons i its)
  then show ?case
    by (cases "ps (productId i)") (auto split: if_splits)
qed

text \<open>
  Claim C5 (all-or-nothing over stock) fails on the code. The first loop compares every
  line with the stock as it stands before the order, so two lines of one product pass it
  together although their sum exceeds the stock. Here product 2 has 3 units and is
  ordered twice with quantity 2, after one unit of product 1: the order is saved, product
  1 goes from 5 to 4 and product 2 from 3 to 1, the third save is rejected by the
  schema's \<^verbatim>\<open>min: 0\<close>, and the handler answers 500 with the order and both decrements
  left in place.
\<close>

theorem createOrder_partial_decrement:
  "case createOrder lenient 1700000000 3
          (order_for [\<lparr>productId = 1, req_quantity = 1\<rparr>, \<lparr>productId = 2, req_quantity = 2\<rparr>,
                      \<lparr>productId = 2, req_quantity = 2\<rparr>])
          (shop [1 \<mapsto> product_A, 2 \<mapsto> product_B]) of
      (r, s') \<Rightarrow>
        r = Inl ServerError
        \<and> map_option quantity (products s' 1) = Some 4
        \<and> map_option quantity (products s' 2) = Some 1
        \<and> length (orders s') = 1
        \<and> quantity product_B = 3
        \<and> requested [\<lparr>productId = 1, req_quantity = 1\<rparr>, \<lparr>productId = 2, req_quantity = 2\<rparr>,
                      \<lparr>productId = 2, req_quantity = 2\<rparr>] 2 = 4"
  by (simp add: createOrder_def order_for_def shop_def product_A_def product_B_def
      calculate_pricing_def order_schema_ok_def requested_def min_0_def Let_def
      double_values vat_values example_addresses)

text \<open>
  Claim C10. Whatever the request, \<^verbatim>\<open>createOrder\<close> either fails without saving an order
  or saves exactly one; the saved order carries the request's shipping address as the
  sanitizers of the route left it, and as billing address the one supplied, or its own
  shipping address when none was supplied.
\<close>

theorem createOrder_billing_address:
  "case createOrder v now uid req s of
      (r, s') \<Rightarrow>
        (\<exists>e. r = Inl e \<and> orders s' = orders s)
        \<or> (\<exists>ord. orders s' = orders s @ [ord]
              \<and> (r = Inr ord \<or> r = Inl ServerError)
              \<and> shippingAddress ord = sanitize_shipping v (req_shippingAddress req)
              \<and> billingAddress ord
                  = (case req_billingAddress req of
                       None \<Rightarrow> shippingAddress ord | Some b \<Rightarrow> b))"
  by (auto simp: createOrder_def Let_def
      split: if_splits sum.splits prod.splits bool.splits option.splits)

theorem createOrder_billing_examples:
  "(\<exists>ord s'. createOrder lenient 1700000000 3 (order_for [\<lparr>productId = 1, req_quantity = 2\<rparr>])
        (shop [1 \<mapsto> product_A]) = (Inr ord, s')
      \<and> orders s' = [ord] \<and> billingAddress ord = shippingAddress ord
      \<and> street (billingAddress ord) = Some ''12 Marina Road'')
   \<and> (\<exists>ord s'. createOrder lenient 1700000000 3
        ((order_for [\<lparr>productId = 1, req_quantity = 2\<rparr>])
           \<lparr>req_billingAddress := Some billing_office\<rparr>)
        (shop [1 \<mapsto> product_A]) = (Inr ord, s')
      \<and> orders s' = [ord] \<and> billingAddress ord = billing_office
      \<and> street (shippingAddress ord) = Some ''12 Marina Road'')"
  using
    createOrder_billing_address[where v = lenient and now = 1700000000 and uid = 3
      and req = "order_for [\<lparr>productId = 1, req_quantity = 2\<rparr>]"
      and s = "shop [1 \<mapsto> product_A]"]
    createOrder_billing_address[where v = lenient and now = 1700000000 and uid = 3
      and req = "(order_for [\<lparr>productId = 1, req_quantity = 2\<rparr>])
         \<lparr>req_billingAddress := Some billing_office\<rparr>"
      and s = "shop [1 \<mapsto> product_A]"]
  by (simp add: createOrder_def order_for_def shop_def product_A_def
      calculate_pricing_def order_schema_ok_def min_0_def Let_def
      double_values vat_values example_addresses)

subsection \<open>Cancelling an order and setting its status\<close>

lemma ordered_Nil: "ordered [] pid = 0"
  by (simp add: ordered_def)

lemma ordered_Cons:
  "ordered (i # rest) pid = (if product i = pid then item_quantity i else 0) + ordered rest pid"
  by (simp add: ordered_def)

lemma return_stock_0: "return_stock 0 p = p"
  by (simp add: return_stock_def)

lemma return_stock_return_stock: "return_stock m (return_stock n p) = return_stock (n + m) p"
  by (simp add: return_stock_def)

lemma restore_inventory_eq:
  "restore_inventory ps its = (\<lambda>pid. map_option (return_stock (ordered its pid)) (ps pid))"
proof (induction its arbitrary: ps)
  case Nil
  show ?case by (simp add: ordered_Nil return_stock_0 option.map_ident)
next
  case (Cons i rest)
  show ?case
  proof (cases "ps (product i)")
    case None
    then show ?thesis
      by (auto simp: Cons.IH ordered_Cons fun_eq_iff)
  next
    case (Some p)
    have step: "restore_inventory ps (i # rest)
        = restore_inventory (ps(product i \<mapsto> return_stock (item_quantity i) p)) rest"
      using Some by (simp add: return_stock_def map_upd_triv)
    show ?thesis unfolding step Cons.IH using Some
      by (auto simp: ordered_Cons fun_eq_iff return_stock_return_stock)
  qed
qed

lemma order_pre_save_cancelled:
  "order_pre_save now old (ord\<lparr>status := Cancelled, cancellationReason := c, cancelledAt := Some t\<rparr>)
     = ord\<lparr>status := Cancelled, cancellationReason := c, cancelledAt := Some t\<rparr>"
  by (simp add: order_pre_save_def)

lemma optional_trimmed:
  "optional_field (\<lambda>x. isLength 1 hi (trim x)) f
     = (case f of None \<Rightarrow> True | Some x \<Rightarrow> trim x \<noteq> [] \<and> length (trim x) \<le> hi)"
  "optional_field (\<lambda>x. isLength (Suc 0) hi (trim x)) f
     = (case f of None \<Rightarrow> True | Some x \<Rightarrow> trim x \<noteq> [] \<and> length (trim x) \<le> hi)"
  by (cases f; auto simp: optional_field_def isLength_def Suc_le_eq)+

text \<open>
  Claim C8. A reason that is supplied must be, once trimmed, of 1 to 500 characters, or
  the request is answered \<open>ValidationFailed\<close>. Otherwise \<^verbatim>\<open>cancelOrder\<close> answers
  \<open>NotFound\<close> for a missing order, \<open>Forbidden\<close> for a requester who is not the owner and
  \<open>InvalidTransition\<close> for an order that is neither \<open>pending\<close> nor \<open>processing\<close>. In
  each of these cases the store is left as it was. In the remaining case it succeeds,
  returns to every tracked product the quantity ordered of it, and stores the order
  with status \<open>cancelled\<close>, the time of the cancellation and the reason: the trimmed
  reason of the request, or ``Cancelled by user'' when the request has none.
\<close>

theorem cancelOrder_cases:
  "cancelOrder now uid oid r s =
     (if (case r of None \<Rightarrow> False | Some x \<Rightarrow> trim x = [] \<or> 500 < length (trim x))
        then (Inl ValidationFailed, s)
      else if length (orders s) \<le> oid then (Inl NotFound, s)
      else if user (orders s ! oid) \<noteq> uid then (Inl Forbidden, s)
      else if status (orders s ! oid) \<noteq> Pending \<and> status (orders s ! oid) \<noteq> Processing
        then (Inl InvalidTransition, s)
      else
        (Inr ((orders s ! oid)\<lparr>status := Cancelled,
                cancellationReason :=
                  Some (case r of None \<Rightarrow> ''Cancelled by user'' | Some x \<Rightarrow> trim x),
                cancelledAt := Some now\<rparr>),
         s\<lparr>products :=
              (\<lambda>pid. map_option (return_stock (ordered (items (orders s ! oid)) pid))
                 (products s pid)),
            orders := (orders s)[oid := (orders s ! oid)\<lparr>status := Cancelled,
                cancellationReason :=
                  Some (case r of None \<Rightarrow> ''Cancelled by user'' | Some x \<Rightarrow> trim x),
                cancelledAt := Some now\<rparr>]\<rparr>))"
  by (cases r)
    (simp_all add: cancelOrder_def Let_def order_pre_save_cancelled restore_inventory_eq
      optional_trimmed not_le)

text \<open>
  A shipped order cannot be cancelled and nothing changes. Cancelling a processing
  order of two units returns them to the stock (5 becomes 7) and stores the reason of
  the request without the blanks around it; without a reason the default is stored. An
  empty reason, a requester who is not the owner and a missing order are refused.
\<close>

theorem cancelOrder_examples:
  "cancelOrder 1700000100 3 0 None (shop_with [order_of 3 Shipped] [])
     = (Inl InvalidTransition, shop_with [order_of 3 Shipped] [])
   \<and> (case cancelOrder 1700000100 3 0 (Some ''  changed my mind '')
              (shop_with [order_of 3 Processing] []) of
         (r, s') \<Rightarrow>
           map_option quantity (products s' 1) = Some 7
           \<and> map status (orders s') = [Cancelled]
           \<and> map cancellationReason (orders s') = [Some ''changed my mind'']
           \<and> map cancelledAt (orders s') = [Some 1700000100])
   \<and> (case cancelOrder 1700000100 3 0 None (shop_with [order_of 3 Pending] []) of
         (r, s') \<Rightarrow>
           map_option quantity (products s' 1) = Some 7
           \<and> map cancellationReason (orders s') = [Some ''Cancelled by user''])
   \<and> cancelOrder 1700000100 3 0 (Some '' '') (shop_with [order_of 3 Pending] [])
       = (Inl ValidationFailed, shop_with [order_of 3 Pending] [])
   \<and> fst (cancelOrder 1700000100 4 0 None (shop_with [order_of 3 Pending] [])) = Inl Forbidden
   \<and> fst (cancelOrder 1700000100 3 1 None (shop_with [order_of 3 Pending] [])) = Inl NotFound"
  by (simp add: cancelOrder_cases shop_with_def shop_def order_of_def two_of_A_def product_A_def
      ordered_def return_stock_def trim_def is_space_def)

lemma status_order_pre_save: "status (order_pre_save now old ord) = status ord"
  by (simp add: order_pre_save_def)

lemma user_order_pre_save: "user (order_pre_save now old ord) = user ord"
  by (simp add: order_pre_save_def)

lemma items_order_pre_save: "items (order_pre_save now old ord) = items ord"
  by (simp add: order_pre_save_def)

lemma pricing_order_pre_save: "pricing (order_pre_save now old ord) = pricing ord"
  by (simp add: order_pre_save_def)

lemma trackingNumber_order_pre_save:
  "trackingNumber (order_pre_save now old ord) = trackingNumber ord"
  by (simp add: order_pre_save_def)

lemma order_notes_order_pre_save: "order_notes (order_pre_save now old ord) = order_notes ord"
  by (simp add: order_pre_save_def)

text \<open>
  Claim C7 as stated fails: the handler checks no transition. A delivered order that is
  asked to become \<open>pending\<close> becomes pending.
\<close>

theorem transitionStatus_delivered_to_pending:
  "case transitionStatus 1700000200 0 Pending None None (shop_with [order_of 3 Delivered] []) of
      (r, s') \<Rightarrow> (\<exists>ord. r = Inr ord) \<and> map status (orders s') = [Pending]"
  by (simp add: transitionStatus_def shop_with_def shop_def order_of_def order_pre_save_def
      optional_field_def Let_def)

text \<open>
  Claim C7, amended. \<^verbatim>\<open>transitionStatus\<close> enforces no state machine. A tracking number
  or a note that is supplied must be, once trimmed, of 1 to 100 and of 1 to 500
  characters, or the request is answered \<open>ValidationFailed\<close>; a missing order is
  answered \<open>NotFound\<close>; in both cases the store is left as it was. Every other request
  is accepted, whatever the current status of the order and whatever the status asked
  for: the order is stored with the requested status, with the trimmed tracking number
  and note when they are supplied, and with its owner, lines and pricing as they were.
\<close>

theorem transitionStatus_accepts_every_status:
  "case transitionStatus now oid new tracking memo s of
      (r, s') \<Rightarrow>
        if (case tracking of None \<Rightarrow> False | Some t \<Rightarrow> trim t = [] \<or> 100 < length (trim t))
           \<or> (case memo of None \<Rightarrow> False | Some n \<Rightarrow> trim n = [] \<or> 500 < length (trim n))
          then r = Inl ValidationFailed \<and> s' = s
        else if length (orders s) \<le> oid then r = Inl NotFound \<and> s' = s
        else (\<exists>ord. r = Inr ord \<and> s' = s\<lparr>orders := (orders s)[oid := ord]\<rparr>
                \<and> status ord = new \<and> user ord = user (orders s ! oid)
                \<and> items ord = items (orders s ! oid)
                \<and> pricing ord = pricing (orders s ! oid)
                \<and> trackingNumber ord
                    = (case tracking of
                         None \<Rightarrow> trackingNumber (orders s ! oid) | Some t \<Rightarrow> Some (trim t))
                \<and> order_notes ord
                    = (case memo of
                         None \<Rightarrow> order_notes (orders s ! oid) | Some n \<Rightarrow> Some (trim n)))"
  by (cases tracking; cases memo)
    (simp_all add: transitionStatus_def Let_def status_order_pre_save user_order_pre_save
      items_order_pre_save pricing_order_pre_save trackingNumber_order_pre_save
      order_notes_order_pre_save optional_trimmed not_le)

text \<open>
  A cancelled order is shipped, with the tracking number stored trimmed; an empty
  tracking number is refused, and so is a missing order.
\<close>

theorem transitionStatus_examples:
  "(\<exists>ord s'. transitionStatus 1700000200 0 Shipped (Some '' TRK-1 '') None
        (shop_with [order_of 3 Cancelled] []) = (Inr ord, s')
      \<and> status ord = Shipped \<and> trackingNumber ord = Some ''TRK-1'' \<and> orders s' = [ord])
   \<and> transitionStatus 1700000200 0 Shipped (Some '''') None (shop_with [order_of 3 Pending] [])
       = (Inl ValidationFailed, shop_with [order_of 3 Pending] [])
   \<and> transitionStatus 1700000200 5 Shipped None None (shop_with [order_of 3 Pending] [])
       = (Inl NotFound, shop_with [order_of 3 Pending] [])"
  using transitionStatus_accepts_every_status[where now = 1700000200 and oid = 0
      and new = Shipped and tracking = "Some '' TRK-1 ''" and memo = None
      and s = "shop_with [order_of 3 Cancelled] []"]
    transitionStatus_accepts_every_status[where now = 1700000200 and oid = 0
      and new = Shipped and tracking = "Some ''''" and memo = None
      and s = "shop_with [order_of 3 Pending] []"]
    transitionStatus_accepts_every_status[where now = 1700000200 and oid = 5
      and new = Shipped and tracking = None and memo = None
      and s = "shop_with [order_of 3 Pending] []"]
  by (auto simp: shop_with_def shop_def trim_def is_space_def split: prod.splits)

subsection \<open>Initiating a payment\<close>

lemma payment_pre_save_fields:
  "pay_order (payment_pre_save now b p) = pay_order p"
  "pay_user (payment_pre_save now b p) = pay_user p"
  "amount (payment_pre_save now b p) = amount p"
  "pay_status (payment_pre_save now b p) = pay_status p"
  "refunds (payment_pre_save now b p) = refunds p"
  "gateway (payment_pre_save now b p) = gateway p"
  "gatewayReference (payment_pre_save now b p) = gatewayReference p"
  by (simp_all add: payment_pre_save_def min_0_def round_double_0 Let_def)

lemma initiatePayment_blocked:
  assumes "oid < length (orders s)" "user (orders s ! oid) = uid" "status (orders s ! oid) = Pending"
    and "list_ex (blocks_payment oid) (payments s)"
  shows "initiatePayment now uid oid m s = (Inl DuplicatePayment, s)"
  using assms by (simp add: initiatePayment_def Let_def)

lemma initiatePayment_creates:
  assumes "oid < length (orders s)" "user (orders s ! oid) = uid" "status (orders s ! oid) = Pending"
    and "min_0 (total (pricing (orders s ! oid)))" "m \<noteq> BankTransfer"
    and "\<not> list_ex (blocks_payment oid) (payments s)"
  shows "\<exists>p. initiatePayment now uid oid m s
            = (Inr (length (payments s)), s\<lparr>payments := payments s @ [p]\<rparr>)
          \<and> pay_order p = oid \<and> pay_user p = uid \<and> pay_status p = PayPending
          \<and> amount p = total (pricing (orders s ! oid))"
  using assms
  by (cases m)
    (auto simp: initiatePayment_def Let_def payment_schema_ok_def gateway_enum_def
      payment_pre_save_fields intro!: exI)

text \<open>
  The gateway stored for a bank transfer is the method's own name, which the schema's
  enum of gateways does not contain: the first save is rejected and the handler answers
  500 without a payment. The branch of the handler that would set such a payment to
  \<open>processing\<close> is never reached.
\<close>

lemma initiatePayment_bank_transfer:
  assumes "oid < length (orders s)" "user (orders s ! oid) = uid" "status (orders s ! oid) = Pending"
    and "\<not> list_ex (blocks_payment oid) (payments s)"
  shows "initiatePayment now uid oid BankTransfer s = (Inl ServerError, s)"
  using assms
  by (simp add: initiatePayment_def Let_def payment_schema_ok_def gateway_enum_def)

text \<open>
  Claim C4, amended. For a \<open>pending\<close> order of the requester and a method other than
  bank transfer: a payment of the order in status \<open>pending\<close>, \<open>processing\<close> or
  \<open>completed\<close> makes \<^verbatim>\<open>initiatePayment\<close> fail with \<open>DuplicatePayment\<close> and change
  nothing; without one the call creates a \<open>pending\<close> payment for the order's total,
  after which exactly one payment of the order is in one of the three statuses and a
  second call, with any method at any time, fails with \<open>DuplicatePayment\<close>; payments
  in status \<open>failed\<close>, \<open>cancelled\<close>, \<open>refunded\<close> or \<open>partially_refunded\<close> do not block.
\<close>

theorem initiatePayment_at_most_one_active:
  assumes ord: "oid < length (orders s)" "user (orders s ! oid) = uid"
      "status (orders s ! oid) = Pending" "min_0 (total (pricing (orders s ! oid)))"
    and m: "m \<noteq> BankTransfer"
  shows "(list_ex (blocks_payment oid) (payments s)
            \<longrightarrow> initiatePayment now uid oid m s = (Inl DuplicatePayment, s))
      \<and> (\<not> list_ex (blocks_payment oid) (payments s)
            \<longrightarrow> (case initiatePayment now uid oid m s of
                   (r, s1) \<Rightarrow>
                     r = Inr (length (payments s))
                     \<and> orders s1 = orders s
                     \<and> (\<exists>p. payments s1 = payments s @ [p] \<and> pay_status p = PayPending
                            \<and> amount p = total (pricing (orders s ! oid)))
                     \<and> length (filter (blocks_payment oid) (payments s1)) = 1
                     \<and> initiatePayment now' uid oid m' s1 = (Inl DuplicatePayment, s1)))
      \<and> ((\<forall>p\<in>set (payments s). pay_order p = oid
              \<longrightarrow> pay_status p \<in> {PayFailed, PayCancelled, PayRefunded, PayPartiallyRefunded})
            \<longrightarrow> fst (initiatePayment now uid oid m s) = Inr (length (payments s)))
      \<and> ((\<exists>p\<in>set (payments s). pay_order p = oid
              \<and> pay_status p \<in> {PayPending, PayProcessing, PayCompleted})
            \<longrightarrow> initiatePayment now uid oid m s = (Inl DuplicatePayment, s))"
proof (intro conjI impI)
  assume "list_ex (blocks_payment oid) (payments s)"
  then show "initiatePayment now uid oid m s = (Inl DuplicatePayment, s)"
    by (rule initiatePayment_blocked[OF ord(1,2,3)])
next
  assume free: "\<not> list_ex (blocks_payment oid) (payments s)"
  from initiatePayment_creates[OF ord m free, of now]
  obtain p where p: "initiatePayment now uid oid m s
        = (Inr (length (payments s)), s\<lparr>payments := payments s @ [p]\<rparr>)"
      "pay_order p = oid" "pay_user p = uid" "pay_status p = PayPending"
      "amount p = total (pricing (orders s ! oid))"
    by blast
  let ?s1 = "s\<lparr>payments := payments s @ [p]\<rparr>"
  have none: "filter (blocks_payment oid) (payments s) = []"
    using free by (simp add: list_ex_iff filter_empty_conv)
  have blocks: "blocks_payment oid p"
    using p by (simp add: blocks_payment_def)
  have one: "length (filter (blocks_payment oid) (payments ?s1)) = 1"
    using none blocks by simp
  have again: "initiatePayment now' uid oid m' ?s1 = (Inl DuplicatePayment, ?s1)"
    using ord blocks by (intro initiatePayment_blocked) (simp_all add: list_ex_iff)
  show "case initiatePayment now uid oid m s of
      (r, s1) \<Rightarrow>
        r = Inr (length (payments s))
        \<and> orders s1 = orders s
        \<and> (\<exists>p. payments s1 = payments s @ [p] \<and> pay_status p = PayPending
              \<and> amount p = total (pricing (orders s ! oid)))
        \<and> length (filter (blocks_payment oid) (payments s1)) = 1
        \<and> initiatePayment now' uid oid m' s1 = (Inl DuplicatePayment, s1)"
    unfolding p(1) using one again p(4,5) by simp
next
  assume only_terminal: "\<forall>p\<in>set (payments s). pay_order p = oid
      \<longrightarrow> pay_status p \<in> {PayFailed, PayCancelled, PayRefunded, PayPartiallyRefunded}"
  have free: "\<not> list_ex (blocks_payment oid) (payments s)"
    using only_terminal by (auto simp: list_ex_iff blocks_payment_def)
  from initiatePayment_creates[OF ord m free, of now]
  show "fst (initiatePayment now uid oid m s) = Inr (length (payments s))"
    by auto
next
  assume "\<exists>p\<in>set (payments s). pay_order p = oid
      \<and> pay_status p \<in> {PayPending, PayProcessing, PayCompleted}"
  then have "list_ex (blocks_payment oid) (payments s)"
    by (auto simp: list_ex_iff blocks_payment_def)
  then show "initiatePayment now uid oid m s = (Inl DuplicatePayment, s)"
    by (rule initiatePayment_blocked[OF ord(1,2,3)])
qed

text \<open>
  Claim C4 as stated fails: a payment in a status other than \<open>failed\<close> does not always
  block. With a \<open>refunded\<close> payment on a \<open>pending\<close> order the call succeeds and the
  order has two payments, neither of them \<open>failed\<close>.
\<close>

theorem initiatePayment_refunded_does_not_block:
  "case initiatePayment 1700000300 3 0 Paystack
          (shop_with [order_of 3 Pending] [payment_of 0 3 PayRefunded (Num 24000)]) of
      (r, s') \<Rightarrow> r = Inr 1 \<and> map pay_status (payments s') = [PayRefunded, PayPending]
                \<and> map pay_order (payments s') = [0, 0]"
  by (simp add: initiatePayment_def shop_with_def shop_def order_of_def payment_of_def
      blocks_payment_def min_0_def payment_schema_ok_def gateway_enum_def
      payment_pre_save_def min_0_def round_double_0 Let_def)

text \<open>
  An order whose one payment has failed: the first call creates a payment, the second
  is refused. An order with a payment that is \<open>processing\<close>, or \<open>completed\<close>: the call
  is refused.
\<close>

theorem initiatePayment_twice_example:
  "(case initiatePayment 1700000300 3 0 Paystack
          (shop_with [order_of 3 Pending] [payment_of 0 3 PayFailed (Num 24000)]) of
      (r, s1) \<Rightarrow>
        r = Inr 1 \<and> map pay_status (payments s1) = [PayFailed, PayPending]
        \<and> initiatePayment 1700000301 3 0 Card s1 = (Inl DuplicatePayment, s1))
   \<and> initiatePayment 1700000300 3 0 Paystack
        (shop_with [order_of 3 Pending] [payment_of 0 3 PayProcessing (Num 24000)])
      = (Inl DuplicatePayment,
         shop_with [order_of 3 Pending] [payment_of 0 3 PayProcessing (Num 24000)])
   \<and> initiatePayment 1700000300 3 0 Card
        (shop_with [order_of 3 Pending]
           [payment_of 0 3 PayFailed (Num 24000), payment_of 0 3 PayCompleted (Num 24000)])
      = (Inl DuplicatePayment,
         shop_with [order_of 3 Pending]
           [payment_of 0 3 PayFailed (Num 24000), payment_of 0 3 PayCompleted (Num 24000)])"
proof -
  let ?s = "shop_with [order_of 3 Pending] [payment_of 0 3 PayFailed (Num 24000)]"
  let ?t = "shop_with [order_of 3 Pending] [payment_of 0 3 PayProcessing (Num 24000)]"
  let ?u = "shop_with [order_of 3 Pending]
      [payment_of 0 3 PayFailed (Num 24000), payment_of 0 3 PayCompleted (Num 24000)]"
  have ord: "0 < length (orders (shop_with [order_of 3 Pending] ps))"
    "user (orders (shop_with [order_of 3 Pending] ps) ! 0) = 3"
    "status (orders (shop_with [order_of 3 Pending] ps) ! 0) = Pending"
    "min_0 (total (pricing (orders (shop_with [order_of 3 Pending] ps) ! 0)))" for ps
    by (simp_all add: shop_with_def shop_def order_of_def min_0_def)
  have m: "Paystack \<noteq> BankTransfer" "Card \<noteq> BankTransfer" by simp_all
  have free: "\<not> list_ex (blocks_payment 0) (payments ?s)"
    by (simp add: shop_with_def shop_def payment_of_def blocks_payment_def)
  have processing: "\<exists>p\<in>set (payments ?t). pay_order p = 0
      \<and> pay_status p \<in> {PayPending, PayProcessing, PayCompleted}"
    by (simp add: shop_with_def payment_of_def)
  have completed: "\<exists>p\<in>set (payments ?u). pay_order p = 0
      \<and> pay_status p \<in> {PayPending, PayProcessing, PayCompleted}"
    by (simp add: shop_with_def payment_of_def)
  from initiatePayment_at_most_one_active[OF ord[of "[payment_of 0 3 PayFailed (Num 24000)]"]
      m(1), where now = 1700000300 and now' = 1700000301 and m' = Card] free
  have one: "case initiatePayment 1700000300 3 0 Paystack ?s of
      (r, s1) \<Rightarrow>
        r = Inr 1 \<and> map pay_status (payments s1) = [PayFailed, PayPending]
        \<and> initiatePayment 1700000301 3 0 Card s1 = (Inl DuplicatePayment, s1)"
    by (auto simp: shop_with_def shop_def payment_of_def split: prod.splits)
  from initiatePayment_at_most_one_active[OF
      ord[of "[payment_of 0 3 PayProcessing (Num 24000)]"] m(1),
      where now = 1700000300 and now' = 1700000301 and m' = Card] processing
  have two: "initiatePayment 1700000300 3 0 Paystack ?t = (Inl DuplicatePayment, ?t)"
    by blast
  from initiatePayment_at_most_one_active[OF
      ord[of "[payment_of 0 3 PayFailed (Num 24000), payment_of 0 3 PayCompleted (Num 24000)]"]
      m(2), where now = 1700000300 and now' = 1700000301 and m' = Card] completed
  have three: "initiatePayment 1700000300 3 0 Card ?u = (Inl DuplicatePayment, ?u)"
    by blast
  from one two three show ?thesis by simp
qed

subsection \<open>Verifying a payment\<close>

lemma verify_unreachable:
  "verifyFlutterwavePayment p Unreachable = unavailable"
  "verifyPaystackPayment p Unreachable = unavailable"
  by (simp_all add: verifyFlutterwavePayment_def verifyPaystackPayment_def)

lemma markFailed_message:
  "msg \<noteq> [] \<Longrightarrow>
   markFailed now None (Some msg) p
     = p\<lparr>pay_status := PayFailed, failedAt := Some now,
         error := Some \<lparr>code = None, message = Some msg\<rparr>,
         fees := (fees p)\<lparr>fee_total := js_add (fee_gateway (fees p)) (fee_processing (fees p))\<rparr>\<rparr>"
  by (simp add: markFailed_def payment_pre_save_def truthy_def Let_def)

text \<open>
  Every flat charge with a status is ``unavailable'' to the Paystack helper: it reads
  \<^verbatim>\<open>data.data.status\<close> on the charge itself.
\<close>

lemma verifyPaystackPayment_flat_reply:
  "ch_status c \<noteq> [] \<Longrightarrow> verifyPaystackPayment p (FlatReply c) = unavailable"
  by (simp add: verifyPaystackPayment_def)

text \<open>
  Claim C3 as stated fails: when the verification call throws, the Payment does not
  stay as it was. A \<open>pending\<close> payment whose gateway cannot be reached ends up
  \<open>failed\<close>, with \<^verbatim>\<open>failedAt\<close> and the error message recorded, and the response is
  the 400 of a failed verification.
\<close>

theorem verifyPayment_pending_then_outage:
  "case verifyPayment 1700000500 3 0 Unreachable
          (shop_with [order_of 3 Pending] [payment_of 0 3 PayPending (Num 24000)]) of
      (r, s') \<Rightarrow>
        r = Inl (VerificationFailed ''Payment verification service unavailable'')
        \<and> map pay_status (payments s') = [PayFailed]
        \<and> map failedAt (payments s') = [Some 1700000500]
        \<and> map error (payments s')
            = [Some \<lparr>code = None, message = Some ''Payment verification service unavailable''\<rparr>]"
  by (simp add: verifyPayment_def shop_with_def shop_def payment_of_def verify_unreachable
      unavailable_def markFailed_message Let_def)

text \<open>
  Claim C3, amended. For a payment of the requester whose gateway is Flutterwave or
  Paystack: when the verification call throws, \<^verbatim>\<open>verifyPayment\<close> answers 400 with the
  message ``Payment verification service unavailable'' and stores the payment as
  \<open>failed\<close>, with \<^verbatim>\<open>failedAt\<close> the time of the call and the message as its error;
  nothing else in the store changes.
\<close>

theorem verifyPayment_outage_marks_failed:
  assumes "pid < length (payments s)" "pay_user (payments s ! pid) = uid"
    and "gateway (payments s ! pid) = ''flutterwave'' \<or> gateway (payments s ! pid) = ''paystack''"
  shows "verifyPayment now uid pid Unreachable s
      = (Inl (VerificationFailed ''Payment verification service unavailable''),
         s\<lparr>payments := (payments s)[pid := (payments s ! pid)
              \<lparr>pay_status := PayFailed, failedAt := Some now,
               error := Some \<lparr>code = None,
                               message = Some ''Payment verification service unavailable''\<rparr>,
               fees := (fees (payments s ! pid))
                 \<lparr>fee_total := js_add (fee_gateway (fees (payments s ! pid)))
                                  (fee_processing (fees (payments s ! pid)))\<rparr>\<rparr>]\<rparr>)"
  using assms
  by (auto simp: verifyPayment_def verify_unreachable unavailable_def markFailed_message Let_def)

text \<open>Even a payment that was \<open>completed\<close> is stored as \<open>failed\<close>.\<close>

theorem verifyPayment_completed_then_outage:
  "verifyPayment 1700000500 3 0 Unreachable
      (shop_with [order_of 3 Pending] [payment_of 0 3 PayCompleted (Num 24000)])
    = (Inl (VerificationFailed ''Payment verification service unavailable''),
       shop_with [order_of 3 Pending]
         [(payment_of 0 3 PayFailed (Num 24000))
            \<lparr>failedAt := Some 1700000500,
             error := Some \<lparr>code = None,
                             message = Some ''Payment verification service unavailable''\<rparr>\<rparr>])"
proof -
  let ?s = "shop_with [order_of 3 Pending] [payment_of 0 3 PayCompleted (Num 24000)]"
  have a: "0 < length (payments ?s)" "pay_user (payments ?s ! 0) = 3"
    "gateway (payments ?s ! 0) = ''flutterwave'' \<or> gateway (payments ?s ! 0) = ''paystack''"
    by (simp_all add: shop_with_def shop_def payment_of_def)
  show ?thesis
    unfolding verifyPayment_outage_marks_failed[OF a]
    by (simp add: shop_with_def shop_def payment_of_def round_double_0)
qed


subsection \<open>Refunds\<close>

lemma payment_pre_save_keeps:
  "amount (payment_pre_save now b p) = amount p"
  "pay_status (payment_pre_save now b p) = pay_status p"
  "refunds (payment_pre_save now b p) = refunds p"
  "totalRefunded (payment_pre_save now b p) = totalRefunded p"
  by (simp_all add: payment_pre_save_def totalRefunded_def Let_def)

lemma addRefund_rejects:
  "js_le amt (Num 0) \<or> js_less (amount p) (js_add (totalRefunded p) amt) \<Longrightarrow>
   addRefund now amt rsn actor p
     = Inl (if js_le amt (Num 0) then RefundNotPositive else RefundExceedsAmount)"
  by (auto simp: addRefund_def)

text \<open>
  What the guard on the amount does achieve, in the arithmetic of the code: after an
  accepted refund the total that the virtual computes is the old total plus the amount,
  as doubles, and is not above the amount of the payment.
\<close>

lemma addRefund_accepted:
  assumes "addRefund now amt rsn actor p = Inr p'"
  shows "refunds p' = refunds p
           @ [\<lparr>refund_amount = amt, reason = rsn, processedBy = actor, refundedAt = now\<rparr>]"
    and "totalRefunded p' = js_add (totalRefunded p) amt"
    and "amount p' = amount p"
    and "\<not> js_less (amount p') (totalRefunded p')"
    and "pay_status p'
          = (if js_le (amount p) (js_add (js_add (totalRefunded p) amt) amt)
             then PayRefunded else PayPartiallyRefunded)"
  using assms
  by (auto simp: addRefund_def Let_def payment_pre_save_keeps totalRefunded_def
      split: if_splits)

lemma addRefunds_invariant:
  "\<not> js_less (amount p) (totalRefunded p) \<Longrightarrow>
   \<not> js_less (amount p) (totalRefunded (addRefunds now reqs p))
     \<and> amount (addRefunds now reqs p) = amount p"
proof (induction reqs arbitrary: p)
  case Nil
  then show ?case by simp
next
  case (Cons a reqs)
  obtain amt rsn where a: "a = (amt, rsn)" by (cases a)
  show ?case
  proof (cases "addRefund now amt rsn None p")
    case (Inl e)
    then show ?thesis using Cons a by simp
  next
    case (Inr p')
    from addRefund_accepted[OF Inr]
    have inv: "\<not> js_less (amount p') (totalRefunded p')" "amount p' = amount p" by simp_all
    from Cons.IH[OF inv(1)] inv(2) show ?thesis
      using Inr a by simp
  qed
qed

lemma addRefund_accepts:
  assumes "\<not> js_le amt (Num 0)" and "\<not> js_less (amount p) (js_add (totalRefunded p) amt)"
    and "min_0 amt" and "length rsn \<le> 500"
  shows "\<exists>p'. addRefund now amt rsn actor p = Inr p'"
  using assms by (simp add: addRefund_def Let_def)

lemma tenths:
  "round_double (3602879701896397 / 36028797018963968) = Num (3602879701896397 / 36028797018963968)"
  "round_double (3602879701896397 / 18014398509481984) = Num (3602879701896397 / 18014398509481984)"
  "round_double (10808639105689191 / 36028797018963968) = Num (1351079888211149 / 4503599627370496)"
  by code_simp+

text \<open>
  The comparison is one of doubles. Against a payment of 0.3, two refunds of 0.1 are
  accepted and the third is refused: the doubles 0.2 and 0.1 add up to
  0.30000000000000004.
\<close>

lemma addRefund_three_tenths:
  fixes tenth :: js_number and p0 :: payment
  defines "tenth \<equiv> Num (3602879701896397 / 36028797018963968)"
    and "p0 \<equiv> payment_of 0 3 PayCompleted (Num (5404319552844595 / 18014398509481984))"
  shows "\<exists>p1 p2. addRefund now tenth ''part'' None p0 = Inr p1
            \<and> addRefund now tenth ''part'' None p1 = Inr p2
            \<and> addRefund now tenth ''part'' None p2 = Inl RefundExceedsAmount"
proof -
  have t0: "totalRefunded p0 = Num 0" "amount p0 = Num (5404319552844595 / 18014398509481984)"
    by (simp_all add: p0_def payment_of_def totalRefunded_def)
  have "\<exists>p1. addRefund now tenth ''part'' None p0 = Inr p1"
    by (rule addRefund_accepts) (simp_all add: t0 tenth_def tenths min_0_def)
  then obtain p1 where p1: "addRefund now tenth ''part'' None p0 = Inr p1" ..
  from addRefund_accepted(2,3)[OF p1]
  have t1: "totalRefunded p1 = Num (3602879701896397 / 36028797018963968)"
    "amount p1 = Num (5404319552844595 / 18014398509481984)"
    by (simp_all add: t0 tenth_def tenths)
  have "\<exists>p2. addRefund now tenth ''part'' None p1 = Inr p2"
    by (rule addRefund_accepts) (simp_all add: t1 tenth_def tenths min_0_def)
  then obtain p2 where p2: "addRefund now tenth ''part'' None p1 = Inr p2" ..
  from addRefund_accepted(2,3)[OF p2]
  have t2: "totalRefunded p2 = Num (3602879701896397 / 18014398509481984)"
    "amount p2 = Num (5404319552844595 / 18014398509481984)"
    by (simp_all add: t1 tenth_def tenths)
  have "addRefund now tenth ''part'' None p2 = Inl RefundExceedsAmount"
    by (simp add: addRefund_def t2 tenth_def tenths)
  with p1 p2 show ?thesis by blast
qed

lemma addRefund_next:
  assumes "totalRefunded p = Num a" and "amount p = Num c" and "0 < t"
    and "round_double (a + t) = Num b" and "b \<le> c" and "length rsn \<le> 500"
  shows "\<exists>p'. addRefund now (Num t) rsn actor p = Inr p' \<and> totalRefunded p' = Num b
           \<and> amount p' = Num c \<and> length (refunds p') = Suc (length (refunds p))"
proof -
  have "\<exists>p'. addRefund now (Num t) rsn actor p = Inr p'"
    using assms by (intro addRefund_accepts) (simp_all add: min_0_def)
  then obtain p' where p': "addRefund now (Num t) rsn actor p = Inr p'" ..
  from addRefund_accepted(1,2,3)[OF p'] assms p' show ?thesis by simp
qed

text \<open>
  Ten refunds of 0.1 against a payment of 1 are all accepted, as the code accepts them:
  the doubles add up to 0.9999999999999999, although the ten stored amounts, each the
  double nearest to 0.1, add up to more than 1 as rationals.
\<close>

lemma addRefunds_ten_tenths:
  fixes tenth :: rat
  defines "tenth \<equiv> 3602879701896397 / 36028797018963968"
  shows "length (refunds (addRefunds now (replicate 10 (Num tenth, ''part''))
            (payment_of 0 3 PayCompleted (Num 1)))) = 10
      \<and> totalRefunded (addRefunds now (replicate 10 (Num tenth, ''part''))
            (payment_of 0 3 PayCompleted (Num 1))) = Num (9007199254740991 / 9007199254740992)
      \<and> 1 < 10 * tenth"
proof -
  let ?p0 = "payment_of 0 3 PayCompleted (Num 1)"
  have p0: "totalRefunded ?p0 = Num 0" "amount ?p0 = Num 1" "length (refunds ?p0) = 0"
    by (simp_all add: payment_of_def totalRefunded_def)
  have pos: "0 < tenth" and len: "length ''part'' \<le> 500"
    by (simp_all add: tenth_def)
  have r1: "round_double (0 + tenth) = Num (3602879701896397 / 36028797018963968)"
    unfolding tenth_def by code_simp
  from addRefund_next[OF p0(1,2) pos r1 _ len, of now None]
  obtain p1 where s1: "addRefund now (Num tenth) ''part'' None ?p0 = Inr p1"
    and p1: "totalRefunded p1 = Num (3602879701896397 / 36028797018963968)" "amount p1 = Num 1"
      "length (refunds p1) = 1"
    by (auto simp: p0(3))
  have r2: "round_double (3602879701896397 / 36028797018963968 + tenth) = Num (3602879701896397 / 18014398509481984)"
    unfolding tenth_def by code_simp
  from addRefund_next[OF p1(1,2) pos r2 _ len, of now None]
  obtain p2 where s2: "addRefund now (Num tenth) ''part'' None p1 = Inr p2"
    and p2: "totalRefunded p2 = Num (3602879701896397 / 18014398509481984)" "amount p2 = Num 1"
      "length (refunds p2) = 2"
    by (auto simp: p1(3))
  have r3: "round_double (3602879701896397 / 18014398509481984 + tenth) = Num (1351079888211149 / 4503599627370496)"
    unfolding tenth_def by code_simp
  from addRefund_next[OF p2(1,2) pos r3 _ len, of now None]
  obtain p3 where s3: "addRefund now (Num tenth) ''part'' None p2 = Inr p3"
    and p3: "totalRefunded p3 = Num (1351079888211149 / 4503599627370496)" "amount p3 = Num 1"
      "length (refunds p3) = 3"
    by (auto simp: p2(3))
  have r4: "round_double (1351079888211149 / 4503599627370496 + tenth) = Num (3602879701896397 / 9007199254740992)"
    unfolding tenth_def by code_simp
  from addRefund_next[OF p3(1,2) pos r4 _ len, of now None]
  obtain p4 where s4: "addRefund now (Num tenth) ''part'' None p3 = Inr p4"
    and p4: "totalRefunded p4 = Num (3602879701896397 / 9007199254740992)" "amount p4 = Num 1"
      "length (refunds p4) = 4"
    by (auto simp: p3(3))
  have r5: "round_double (3602879701896397 / 9007199254740992 + tenth) = Num (1 / 2)"
    unfolding tenth_def by code_simp
  from addRefund_next[OF p4(1,2) pos r5 _ len, of now None]
  obtain p5 where s5: "addRefund now (Num tenth) ''part'' None p4 = Inr p5"
    and p5: "totalRefunded p5 = Num (1 / 2)" "amount p5 = Num 1"
      "length (refunds p5) = 5"
    by (auto simp: p4(3))
  have r6: "round_double (1 / 2 + tenth) = Num (5404319552844595 / 9007199254740992)"
    unfolding tenth_def by code_simp
  from addRefund_next[OF p5(1,2) pos r6 _ len, of now None]
  obtain p6 where s6: "addRefund now (Num tenth) ''part'' None p5 = Inr p6"
    and p6: "totalRefunded p6 = Num (5404319552844595 / 9007199254740992)" "amount p6 = Num 1"
      "length (refunds p6) = 6"
    by (auto simp: p5(3))
  have r7: "round_double (5404319552844595 / 9007199254740992 + tenth) = Num (3152519739159347 / 4503599627370496)"
    unfolding tenth_def by code_simp
  from addRefund_next[OF p6(1,2) pos r7 _ len, of now None]
  obtain p7 where s7: "addRefund now (Num tenth) ''part'' None p6 = Inr p7"
    and p7: "totalRefunded p7 = Num (3152519739159347 / 4503599627370496)" "amount p7 = Num 1"
      "length (refunds p7) = 7"
    by (auto simp: p6(3))
  have r8: "round_double (3152519739159347 / 4503599627370496 + tenth) = Num (7205759403792793 / 9007199254740992)"
    unfolding tenth_def by code_simp
  from addRefund_next[OF p7(1,2) pos r8 _ len, of now None]
  obtain p8 where s8: "addRefund now (Num tenth) ''part'' None p7 = Inr p8"
    and p8: "totalRefunded p8 = Num (7205759403792793 / 9007199254740992)" "amount p8 = Num 1"
      "length (refunds p8) = 8"
    by (auto simp: p7(3))
  have r9: "round_double (7205759403792793 / 9007199254740992 + tenth) = Num (2026619832316723 / 2251799813685248)"
    unfolding tenth_def by code_simp
  from addRefund_next[OF p8(1,2) pos r9 _ len, of now None]
  obtain p9 where s9: "addRefund now (Num tenth) ''part'' None p8 = Inr p9"
    and p9: "totalRefunded p9 = Num (2026619832316723 / 2251799813685248)" "amount p9 = Num 1"
      "length (refunds p9) = 9"
    by (auto simp: p8(3))
  have r10: "round_double (2026619832316723 / 2251799813685248 + tenth) = Num (9007199254740991 / 9007199254740992)"
    unfolding tenth_def by code_simp
  from addRefund_next[OF p9(1,2) pos r10 _ len, of now None]
  obtain p10 where s10: "addRefund now (Num tenth) ''part'' None p9 = Inr p10"
    and p10: "totalRefunded p10 = Num (9007199254740991 / 9007199254740992)" "amount p10 = Num 1"
      "length (refunds p10) = 10"
    by (auto simp: p9(3))
  have ten: "replicate 10 x = [x, x, x, x, x, x, x, x, x, x]" for x :: "js_number \<times> string"
    by (simp add: eval_nat_numeral)
  have "addRefunds now (replicate 10 (Num tenth, ''part'')) ?p0 = p10"
    unfolding ten by (simp add: s1 s2 s3 s4 s5 s6 s7 s8 s9 s10)
  with p10 show ?thesis by (simp add: tenth_def)
qed

text \<open>
  Claim C6 fails on the code in two ways. The method checks no status, although the
  virtual \<^verbatim>\<open>isRefundable\<close> of the same model says that only a \<open>completed\<close> or
  \<open>partially_refunded\<close> payment is refundable: a \<open>pending\<close> payment is refunded. And
  the status test counts the new refund twice: half of a payment of 100 refunded, and
  the status is \<open>refunded\<close>.
\<close>

theorem addRefund_ignores_status_and_counts_twice:
  "\<not> isRefundable (payment_of 0 3 PayPending (Num 100))
   \<and> (case addRefund 1700000600 (Num 10) ''goodwill'' (Some 9)
            (payment_of 0 3 PayPending (Num 100)) of
        Inl e \<Rightarrow> False
      | Inr p' \<Rightarrow> pay_status p' = PayPartiallyRefunded \<and> totalRefunded p' = Num 10)
   \<and> (case addRefund 1700000600 (Num 50) ''half'' (Some 9)
            (payment_of 0 3 PayCompleted (Num 100)) of
        Inl e \<Rightarrow> False
      | Inr p' \<Rightarrow>
          pay_status p' = PayRefunded \<and> totalRefunded p' = Num 50 \<and> amount p' = Num 100)"
  by (simp add: addRefund_def isRefundable_def payment_of_def totalRefunded_def
      payment_pre_save_def min_0_def Let_def double_values round_double_0)

subsection \<open>The webhooks\<close>

lemma findOne_None: "(findOne P xs = None) = list_all (\<lambda>x. \<not> P x) xs"
  by (induction xs) simp_all

lemma findOne_iff:
  "(findOne P xs = Some i) = (i < length xs \<and> P (xs ! i) \<and> list_all (\<lambda>x. \<not> P x) (take i xs))"
proof (induction xs arbitrary: i)
  case Nil
  then show ?case by simp
next
  case (Cons x xs)
  show ?case
  proof (cases i)
    case 0
    then show ?thesis by auto
  next
    case (Suc k)
    then show ?thesis using Cons.IH[of k] by auto
  qed
qed


lemma findOne_update:
  "findOne P xs = Some i \<Longrightarrow> P y \<Longrightarrow> findOne P (xs[i := y]) = Some i"
proof (induction xs arbitrary: i)
  case Nil
  then show ?case by simp
next
  case (Cons x xs)
  then show ?case by (auto split: if_splits)
qed

lemma markCompleted_fields:
  "pay_status (markCompleted now tid meta p) = PayCompleted"
  "completedAt (markCompleted now tid meta p) = Some now"
  "gatewayReference (markCompleted now tid meta p) = gatewayReference p"
  "pay_order (markCompleted now tid meta p) = pay_order p"
  "pay_user (markCompleted now tid meta p) = pay_user p"
  "amount (markCompleted now tid meta p) = amount p"
  by (simp_all add: markCompleted_def payment_pre_save_def Let_def split: option.splits)

lemma settle_charge_none:
  "findOne (\<lambda>p. gatewayReference p = Some ref) (payments s) = None \<Longrightarrow>
   settle_charge now ref tid meta s = s"
  by (simp add: settle_charge_def)

lemma settle_charge_not_pending:
  "findOne (\<lambda>p. gatewayReference p = Some ref) (payments s) = Some k \<Longrightarrow>
   pay_status (payments s ! k) \<noteq> PayPending \<Longrightarrow>
   settle_charge now ref tid meta s = s"
  by (simp add: settle_charge_def Let_def)

lemma settle_charge_pending:
  assumes "findOne (\<lambda>p. gatewayReference p = Some ref) (payments s) = Some k"
    and "pay_status (payments s ! k) = PayPending"
  shows "payments (settle_charge now ref tid meta s)
           = (payments s)[k := markCompleted now (Some tid) meta (payments s ! k)]"
    and "orders (settle_charge now ref tid meta s)
           = (if length (orders s) \<le> pay_order (payments s ! k) then orders s
              else (orders s)[pay_order (payments s ! k) :=
                     order_pre_save now (status (orders s ! pay_order (payments s ! k)))
                       ((orders s ! pay_order (payments s ! k))\<lparr>status := Processing\<rparr>)])"
    and "products (settle_charge now ref tid meta s) = products s"
    and "carts (settle_charge now ref tid meta s) = carts s"
  using assms by (simp_all add: settle_charge_def Let_def)

lemma settle_charge_again:
  "settle_charge now2 ref tid meta (settle_charge now1 ref tid meta s)
     = settle_charge now1 ref tid meta s"
proof (cases "findOne (\<lambda>p. gatewayReference p = Some ref) (payments s)")
  case None
  then show ?thesis by (simp add: settle_charge_none)
next
  case (Some k)
  from Some have k: "k < length (payments s)" by (simp add: findOne_iff)
  show ?thesis
  proof (cases "pay_status (payments s ! k) = PayPending")
    case False
    then show ?thesis using Some by (simp add: settle_charge_not_pending)
  next
    case True
    let ?s1 = "settle_charge now1 ref tid meta s"
    from Some have ref: "gatewayReference (payments s ! k) = Some ref" by (simp add: findOne_iff)
    have found: "findOne (\<lambda>p. gatewayReference p = Some ref) (payments ?s1) = Some k"
      unfolding settle_charge_pending(1)[OF Some True]
      by (rule findOne_update[OF Some]) (simp add: markCompleted_fields ref)
    have settled: "pay_status (payments ?s1 ! k) \<noteq> PayPending"
      using k by (simp add: settle_charge_pending(1)[OF Some True] markCompleted_fields)
    from found settled show ?thesis by (rule settle_charge_not_pending)
  qed
qed







text \<open>
  Every delivery, whatever its signature and body, can be repeated: the second delivery
  gets the answer of the first and leaves the store of the first as it is.
\<close>

lemma handleWebhook_twice:
  "handleWebhook pf cfg gw now2 req (snd (handleWebhook pf cfg gw now1 req s))
     = handleWebhook pf cfg gw now1 req s"
proof (cases gw)
  case FlutterwaveGateway
  then show ?thesis
    by (simp add: handleWebhook_def webhook_flutterwave_def settle_charge_again
        split: option.splits body.splits)
next
  case PaystackGateway
  then show ?thesis
    by (simp add: handleWebhook_def webhook_paystack_def settle_charge_again
        split: option.splits body.splits)
qed

text \<open>
  The two handlers read \<^verbatim>\<open>req.body\<close> in opposite forms. With an accepted signature,
  Flutterwave fails on a body that is already an object, and Paystack acknowledges a
  \<open>Buffer\<close> without looking for a payment.
\<close>

lemma handleWebhook_body_forms:
  "\<not> flutterwave_rejects cfg req \<Longrightarrow> wr_body req = Parsed obj \<Longrightarrow>
     handleWebhook pf cfg FlutterwaveGateway now req s = (Inl ServerError, s)"
  "paystack_secret_key cfg = Some secret \<Longrightarrow>
   wr_signature req = Some (hmac_sha512 pf secret (json_stringify pf (wr_body req))) \<Longrightarrow>
   wr_body req = Buffer b \<Longrightarrow>
     handleWebhook pf cfg PaystackGateway now req s = (Inr (), s)"
  by (simp_all add: handleWebhook_def webhook_flutterwave_def webhook_paystack_def)



text \<open>
  Claim C9. A Flutterwave delivery whose \<^verbatim>\<open>verif-hash\<close> header is not the secret hash,
  and a Paystack delivery whose \<^verbatim>\<open>x-paystack-signature\<close> header is not the HMAC of the
  stringified body under the secret key, is answered with \<open>InvalidSignature\<close>, and the
  store is left as it was.
\<close>

theorem handleWebhook_rejects_bad_signature:
  "(wr_signature req \<noteq> flutterwave_secret_hash cfg
      \<longrightarrow> handleWebhook pf cfg FlutterwaveGateway now req s = (Inl InvalidSignature, s))
   \<and> (paystack_secret_key cfg = Some secret
        \<and> wr_signature req \<noteq> Some (hmac_sha512 pf secret (json_stringify pf (wr_body req)))
      \<longrightarrow> handleWebhook pf cfg PaystackGateway now req s = (Inl InvalidSignature, s))"
  by (auto simp: handleWebhook_def webhook_flutterwave_def flutterwave_rejects_def
      webhook_paystack_def)

text \<open>
  A guessed header for Flutterwave, and the bare key as a header for Paystack, against a
  store with pending payments.
\<close>

theorem handleWebhook_bad_signature_example:
  "handleWebhook toy_platform secrets FlutterwaveGateway 1700000700
      \<lparr>wr_signature = Some ''guess'', wr_body = Buffer ''F1''\<rparr>
      (shop_with [order_of 3 Pending, order_of 3 Pending] three_payments)
    = (Inl InvalidSignature, shop_with [order_of 3 Pending, order_of 3 Pending] three_payments)
   \<and> handleWebhook toy_platform secrets PaystackGateway 1700000700
      \<lparr>wr_signature = Some ''sk_test_51'', wr_body = Parsed paystack_event\<rparr>
      (shop_with [order_of 3 Pending, order_of 3 Pending] three_payments)
    = (Inl InvalidSignature, shop_with [order_of 3 Pending, order_of 3 Pending] three_payments)"
proof -
  let ?s = "shop_with [order_of 3 Pending, order_of 3 Pending] three_payments"
  let ?fw = "\<lparr>wr_signature = Some ''guess'', wr_body = Buffer ''F1''\<rparr>"
  let ?ps = "\<lparr>wr_signature = Some ''sk_test_51'', wr_body = Parsed paystack_event\<rparr>"
  have fw: "wr_signature ?fw \<noteq> flutterwave_secret_hash secrets"
    by (simp add: secrets_def)
  have ps: "paystack_secret_key secrets = Some ''sk_test_51''
      \<and> wr_signature ?ps
          \<noteq> Some (hmac_sha512 toy_platform ''sk_test_51'' (json_stringify toy_platform (wr_body ?ps)))"
    by (simp add: secrets_def toy_platform_def)
  from handleWebhook_rejects_bad_signature[where req = ?fw and cfg = secrets
      and pf = toy_platform and now = 1700000700 and s = ?s and secret = "''sk_test_51''"] fw
  have one: "handleWebhook toy_platform secrets FlutterwaveGateway 1700000700 ?fw ?s
      = (Inl InvalidSignature, ?s)"
    by blast
  from handleWebhook_rejects_bad_signature[where req = ?ps and cfg = secrets
      and pf = toy_platform and now = 1700000700 and s = ?s and secret = "''sk_test_51''"] ps
  have two: "handleWebhook toy_platform secrets PaystackGateway 1700000700 ?ps ?s
      = (Inl InvalidSignature, ?s)"
    by blast
  from one two show ?thesis by simp
qed

end
